theory Spec2Isabelle
  imports Complex_Main
begin

section \<open>Fuel-stop planning along a route (routing/views.py)\<close>

text \<open>
  The planner of \<^verbatim>\<open>routing/views.py\<close> is embedded function by function. A Python float is
  the real number it denotes (no NaN, no infinity); \<^verbatim>\<open>float("inf")\<close> is the value \<open>None\<close> of
  an option. Comparisons of floats are exact, so they are the comparisons of the reals.
  Arithmetic is not: where the source adds, subtracts or multiplies in the stop selector (the
  score and the window tests decide which station is chosen) and where it converts an integer
  to a float, the result is rounded to the nearest double by \<open>to_double\<close>, as IEEE 754 does.
  The great-circle distance (sines, cosines and a square root of the platform's library), the
  sums of distances, the segment distances and the costs stand for their exact values.
\<close>

subsection \<open>Double precision\<close>

text \<open>Rounding to the nearest integer, ties to the even one.\<close>

definition round_half_even :: "real \<Rightarrow> int" where
  "round_half_even x =
     (let f = \<lfloor>x\<rfloor>; d = x - of_int f
      in if d < 1 / 2 then f else if d > 1 / 2 then f + 1 else if even f then f else f + 1)"

text \<open>\<^verbatim>\<open>int.bit_length\<close>: the number of binary digits of \<open>n\<close>.\<close>

function bit_length :: "nat \<Rightarrow> nat" where
  "bit_length n = (if n = 0 then 0 else Suc (bit_length (n div 2)))"
  by pat_completeness auto
termination
  by (relation "measure (\<lambda>n. n)") auto

declare bit_length.simps [simp del]

text \<open>The binary exponent of \<open>x > 0\<close>: the \<open>e\<close> with \<open>2 ^ e \<le> x < 2 ^ (e + 1)\<close>.\<close>

definition ilog2 :: "real \<Rightarrow> int" where
  "ilog2 x = (if 1 \<le> x then int (bit_length (nat \<lfloor>x\<rfloor>)) - 1
              else - int (bit_length (nat (\<lceil>1 / x\<rceil> - 1))))"

text \<open>
  The double nearest to \<open>x\<close>, ties to the even significand: 53 significant bits, and below
  \<open>2 ^ - 1022\<close> the fixed spacing \<open>2 ^ - 1074\<close> of the subnormal numbers. A result of magnitude
  \<open>2 ^ 1024\<close> or more is an infinity in Python and outside this model.
\<close>

definition to_double :: "real \<Rightarrow> real" where
  "to_double x =
     (if x = 0 then 0
      else
        (let e = max (ilog2 \<bar>x\<bar>) (- 1022);
             p = 52 - e
         in if 0 \<le> p then of_int (round_half_even (x * 2 ^ nat p)) / 2 ^ nat p
            else of_int (round_half_even (x / 2 ^ nat (- p))) * 2 ^ nat (- p)))"

text \<open>The float operations \<^verbatim>\<open>x + y\<close>, \<^verbatim>\<open>x - y\<close> and \<^verbatim>\<open>x * y\<close>.\<close>

definition dadd :: "real \<Rightarrow> real \<Rightarrow> real" where
  "dadd x y = to_double (x + y)"

definition dsub :: "real \<Rightarrow> real \<Rightarrow> real" where
  "dsub x y = to_double (x - y)"

definition dmul :: "real \<Rightarrow> real \<Rightarrow> real" where
  "dmul x y = to_double (x * y)"

subsection \<open>Constants\<close>

text \<open>The literals \<^verbatim>\<open>0.04\<close> and \<^verbatim>\<open>0.002\<close> are the doubles nearest to these decimals.\<close>

definition MPG :: real where
  "MPG = 10"

definition MAX_RANGE_MILES :: real where
  "MAX_RANGE_MILES = 500"

definition CORRIDOR_RADIUS_MILES :: real where
  "CORRIDOR_RADIUS_MILES = 25"

definition WAYPOINT_WINDOWS_MILES :: "real list" where
  "WAYPOINT_WINDOWS_MILES = [60, 120, 200, 320]"

definition DETOUR_WEIGHT :: real where
  "DETOUR_WEIGHT = to_double (4 / 100)"

definition WAYPOINT_WEIGHT :: real where
  "WAYPOINT_WEIGHT = to_double (2 / 1000)"

subsection \<open>Waypoint markers\<close>

text \<open>
  \<^verbatim>\<open>_build_waypoint_markers\<close>: the \<^verbatim>\<open>while marker < total_miles\<close> loop appends the marker
  and advances it by \<open>MAX_RANGE_MILES\<close>. The loop is the recursion \<open>markers_loop\<close>, whose third
  argument is the list built so far.
\<close>

function markers_loop :: "real \<Rightarrow> real \<Rightarrow> real list \<Rightarrow> real list" where
  "markers_loop marker total_miles markers =
     (if marker < total_miles
      then markers_loop (marker + MAX_RANGE_MILES) total_miles (markers @ [marker])
      else markers)"
  by pat_completeness auto
termination
proof (relation "measure (\<lambda>(marker, total_miles, markers). nat \<lceil>(total_miles - marker) / 500\<rceil>)")
  show "wf (measure (\<lambda>(marker, total_miles, markers). nat \<lceil>(total_miles - marker) / 500\<rceil>))"
    by simp
next
  fix marker total_miles :: real and markers :: "real list"
  assume lt: "marker < total_miles"
  have eq: "(total_miles - (marker + 500)) / 500 = (total_miles - marker) / 500 - 1"
    by (simp add: field_simps)
  have pos: "0 < \<lceil>(total_miles - marker) / 500\<rceil>"
    using lt by (simp add: field_simps)
  have "\<lceil>(total_miles - (marker + 500)) / 500\<rceil> = \<lceil>(total_miles - marker) / 500\<rceil> - 1"
    unfolding eq by simp
  with pos show "((marker + MAX_RANGE_MILES, total_miles, markers @ [marker]),
                  (marker, total_miles, markers))
        \<in> measure (\<lambda>(marker, total_miles, markers). nat \<lceil>(total_miles - marker) / 500\<rceil>)"
    by (simp add: MAX_RANGE_MILES_def)
qed

declare markers_loop.simps [simp del]

definition build_waypoint_markers :: "real \<Rightarrow> bool \<Rightarrow> real list" where
  "build_waypoint_markers total_miles start_with_full_tank =
     (if total_miles \<le> 0 then []
      else markers_loop (if start_with_full_tank then MAX_RANGE_MILES else 0) total_miles [])"

subsection \<open>Python values and the collaborators\<close>

text \<open>
  The values a request can carry (query strings, decoded JSON bodies). A Python \<^verbatim>\<open>str\<close> is
  the list of its code points, all below 256 here; \<^verbatim>\<open>None\<close> is \<open>PNone\<close>.
\<close>

datatype pyval =
    PNone
  | PBool bool
  | PInt int
  | PFloat real
  | PStr string
  | PList "pyval list"
  | PDict "(string \<times> pyval) list"

record station =
  name :: string
  city :: string
  state :: string
  price :: real
  latitude :: real
  longitude :: real

record mapped_station = station +
  route_mile :: real
  detour_miles :: real

text \<open>The exceptions of the Python library that the source meets.\<close>

datatype py_error =
    IndexError
  | ValueError
  | TypeError
  | OverflowError
  | JSONDecodeError
  | UnicodeDecodeError
  | RecursionError

text \<open>
  What the planner calls but does not compute itself: the Python library
  (\<^verbatim>\<open>json.loads\<close>, \<^verbatim>\<open>json.dumps\<close>, \<^verbatim>\<open>float\<close> on a string, \<^verbatim>\<open>str\<close>, float formatting,
  \<^verbatim>\<open>quote_plus\<close>), the two network services of \<^verbatim>\<open>services.py\<close> (their answer is the
  network's; both catch their own exceptions) and the station table as
  \<^verbatim>\<open>_load_station_rows\<close> returns it. \<open>json_loads\<close> returns the decoded value or the
  exception raised: \<^verbatim>\<open>JSONDecodeError\<close> on a text that is not JSON, and also \<^verbatim>\<open>ValueError\<close>
  (an integer literal of more than 4300 digits) or \<^verbatim>\<open>RecursionError\<close> (deep nesting); applied
  to a request body it stands for \<^verbatim>\<open>json.loads(body.decode("utf-8"))\<close> and can be
  \<^verbatim>\<open>UnicodeDecodeError\<close>. \<open>float_of_str\<close> is \<open>None\<close> on a \<^verbatim>\<open>ValueError\<close>.
\<close>

record env =
  json_loads :: "string \<Rightarrow> py_error + pyval"
  json_dumps :: "pyval \<Rightarrow> string"
  float_of_str :: "string \<Rightarrow> real option"
  str_of :: "pyval \<Rightarrow> string"
  str_of_float :: "real \<Rightarrow> string"
  quote_plus :: "string \<Rightarrow> string"
  geocode_address_opencage :: "string \<Rightarrow> (real \<times> real) option"
  get_route :: "real \<times> real \<Rightarrow> real \<times> real \<Rightarrow> real option \<times> string option \<times> (real \<times> real) list"
  load_station_rows :: "station list"

datatype call =
    GeocodeCall string
  | RouteCall "real \<times> real" "real \<times> real"
  | StationRowsCall
  | CacheGet string
  | CacheSet string


subsection \<open>Strings\<close>

text \<open>\<^verbatim>\<open>str.isspace\<close> on the code points below 256, which \<^verbatim>\<open>str.strip\<close> removes.\<close>

definition is_space :: "char \<Rightarrow> bool" where
  "is_space c = (c \<in> set [CHR '' '', CHR 0x09, CHR 0x0A, CHR 0x0B, CHR 0x0C, CHR 0x0D,
                            CHR 0x1C, CHR 0x1D, CHR 0x1E, CHR 0x1F, CHR 0x85, CHR 0xA0])"

definition strip :: "string \<Rightarrow> string" where
  "strip s = rev (dropWhile is_space (rev (dropWhile is_space s)))"

text \<open>\<^verbatim>\<open>str.lower\<close>: the letters A to Z and the capital letters of Latin-1.\<close>

definition lower :: "string \<Rightarrow> string" where
  "lower s = map (\<lambda>c. if (65 \<le> (of_char c :: nat) \<and> (of_char c :: nat) \<le> 90)
                           \<or> (192 \<le> (of_char c :: nat) \<and> (of_char c :: nat) \<le> 222
                               \<and> (of_char c :: nat) \<noteq> 215)
                        then char_of ((of_char c :: nat) + 32) else c) s"

fun split_on :: "char \<Rightarrow> string \<Rightarrow> string list" where
  "split_on sep [] = [[]]"
| "split_on sep (c # cs) =
     (if c = sep then [] # split_on sep cs
      else (case split_on sep cs of p # ps \<Rightarrow> (c # p) # ps | [] \<Rightarrow> [[c]]))"

subsection \<open>Request parsing\<close>

text \<open>\<^verbatim>\<open>bool(v)\<close>, as \<^verbatim>\<open>a or b\<close> tests it.\<close>

fun truthy :: "pyval \<Rightarrow> bool" where
  "truthy PNone = False"
| "truthy (PBool b) = b"
| "truthy (PInt i) = (i \<noteq> 0)"
| "truthy (PFloat r) = (r \<noteq> 0)"
| "truthy (PStr s) = (s \<noteq> [])"
| "truthy (PList xs) = (xs \<noteq> [])"
| "truthy (PDict kvs) = (kvs \<noteq> [])"

definition py_or :: "pyval \<Rightarrow> pyval \<Rightarrow> pyval" where
  "py_or a b = (if truthy a then a else b)"

text \<open>\<^verbatim>\<open>d.get(key)\<close> and \<^verbatim>\<open>d.get(key, default)\<close> on a decoded JSON object.\<close>

definition dict_get :: "(string \<times> pyval) list \<Rightarrow> string \<Rightarrow> pyval \<Rightarrow> pyval" where
  "dict_get d key dflt = (case map_of d key of None \<Rightarrow> dflt | Some v \<Rightarrow> v)"

text \<open>
  A request: the query string as its list of pairs, in order, and the body.
  \<^verbatim>\<open>request.GET.get(key)\<close> is the last value given for the key.
\<close>

record request =
  GET :: "(string \<times> string) list"
  body :: string

definition query_get :: "(string \<times> string) list \<Rightarrow> string \<Rightarrow> string option" where
  "query_get q key = map_of (rev q) key"

text \<open>
  \<^verbatim>\<open>_parse_body\<close> catches \<^verbatim>\<open>UnicodeDecodeError\<close> and \<^verbatim>\<open>JSONDecodeError\<close>; any other exception
  of the decoder escapes.
\<close>

definition parse_body :: "env \<Rightarrow> request \<Rightarrow> py_error + (string \<times> pyval) list" where
  "parse_body e req =
     (if body req = [] then Inr []
      else (case json_loads e (body req) of
              Inl err \<Rightarrow>
                if err = UnicodeDecodeError \<or> err = JSONDecodeError then Inr [] else Inl err
            | Inr data \<Rightarrow> (case data of PDict d \<Rightarrow> Inr d | _ \<Rightarrow> Inr [])))"

definition parse_bool :: "env \<Rightarrow> pyval \<Rightarrow> bool \<Rightarrow> bool" where
  "parse_bool e v dflt =
     (case v of
        PNone \<Rightarrow> dflt
      | PBool b \<Rightarrow> b
      | _ \<Rightarrow>
          (let text = lower (strip (case v of PStr s \<Rightarrow> s | _ \<Rightarrow> str_of e v)) in
           if text \<in> set [''1'', ''true'', ''yes'', ''y''] then True
           else if text \<in> set [''0'', ''false'', ''no'', ''n''] then False
           else dflt))"

text \<open>
  \<^verbatim>\<open>float(v)\<close>: an integer is rounded to the nearest double and raises \<^verbatim>\<open>OverflowError\<close>
  when that is no finite double; a string that is no number raises \<^verbatim>\<open>ValueError\<close>;
  \<^verbatim>\<open>None\<close>, a list and a dictionary raise \<^verbatim>\<open>TypeError\<close>.
\<close>

definition py_float :: "env \<Rightarrow> pyval \<Rightarrow> py_error + real" where
  "py_float e v =
     (case v of
        PInt i \<Rightarrow>
          if \<bar>of_int i :: real\<bar> < 2 ^ 1024 - 2 ^ 970 then Inr (to_double (of_int i))
          else Inl OverflowError
      | PFloat r \<Rightarrow> Inr r
      | PBool b \<Rightarrow> Inr (if b then 1 else 0)
      | PStr s \<Rightarrow> (case float_of_str e s of None \<Rightarrow> Inl ValueError | Some r \<Rightarrow> Inr r)
      | _ \<Rightarrow> Inl TypeError)"

text \<open>
  The end of the text branch of \<^verbatim>\<open>_parse_coords\<close>, from \<^verbatim>\<open>if "," in text\<close> on: the first two
  parts of the text, swapped when only the second exceeds 90 in magnitude.
\<close>

definition comma_coords :: "env \<Rightarrow> string \<Rightarrow> (real \<times> real) option" where
  "comma_coords e text =
     (if CHR '','' \<in> set text then
        (let parts = map strip (split_on CHR '','' text) in
         if length parts \<ge> 2 then
           (case float_of_str e (parts ! 0) of
              None \<Rightarrow> None
            | Some a \<Rightarrow>
                (case float_of_str e (parts ! 1) of
                   None \<Rightarrow> None
                 | Some b \<Rightarrow>
                     (if \<bar>a\<bar> > 90 \<and> \<bar>b\<bar> \<le> 90 then Some (a, b)
                      else if \<bar>b\<bar> > 90 \<and> \<bar>a\<bar> \<le> 90 then Some (b, a)
                      else Some (a, b))))
         else None)
      else None)"

text \<open>
  \<^verbatim>\<open>_parse_coords\<close>. A coordinate list \<^verbatim>\<open>[lon, lat]\<close> is the pair \<open>(lon, lat)\<close>. The result is
  Python's (\<open>Inr None\<close> for \<^verbatim>\<open>None\<close>) or the exception that escapes: the list branch catches
  \<^verbatim>\<open>TypeError\<close> and \<^verbatim>\<open>ValueError\<close> of \<^verbatim>\<open>float\<close>, the text branch catches
  \<^verbatim>\<open>JSONDecodeError\<close> of the decoder. The function calls itself on what \<^verbatim>\<open>json.loads\<close>
  returns, so with an arbitrary decoder it need not return: the outer \<open>option\<close> is \<open>None\<close>
  exactly then.
\<close>

partial_function (option) parse_coords ::
  "env \<Rightarrow> pyval \<Rightarrow> (py_error + (real \<times> real) option) option" where
  "parse_coords e v =
     (case v of
        PNone \<Rightarrow> Some (Inr None)
      | PList xs \<Rightarrow>
          (if length xs \<ge> 2 then
             (case py_float e (xs ! 0) of
                Inl err \<Rightarrow>
                  if err = TypeError \<or> err = ValueError then Some (Inr None) else Some (Inl err)
              | Inr lon \<Rightarrow>
                  (case py_float e (xs ! 1) of
                     Inl err \<Rightarrow>
                       if err = TypeError \<or> err = ValueError then Some (Inr None)
                       else Some (Inl err)
                   | Inr lat \<Rightarrow> Some (Inr (Some (lon, lat)))))
           else Some (Inr None))
      | PStr s \<Rightarrow>
          (let text = strip s in
           if text = [] then Some (Inr None)
           else
             (case json_loads e text of
                Inl err \<Rightarrow>
                  if err = JSONDecodeError then Some (Inr (comma_coords e text))
                  else Some (Inl err)
              | Inr parsed \<Rightarrow>
                  if parsed \<noteq> PNone then parse_coords e parsed
                  else Some (Inr (comma_coords e text))))
      | _ \<Rightarrow> Some (Inr None))"

definition is_probably_us :: "real \<Rightarrow> real \<Rightarrow> bool" where
  "is_probably_us lon lat = (- 1799 / 10 \<le> lon \<and> lon \<le> - 66 \<and> 18 \<le> lat \<and> lat \<le> 72)"

subsection \<open>Geometry\<close>

definition radians :: "real \<Rightarrow> real" where
  "radians x = x * pi / 180"

definition haversine_miles :: "real \<Rightarrow> real \<Rightarrow> real \<Rightarrow> real \<Rightarrow> real" where
  "haversine_miles lat1 lon1 lat2 lon2 =
     (let radius_miles = 39587613 / 10000;
          lat1_rad = radians lat1;
          lon1_rad = radians lon1;
          lat2_rad = radians lat2;
          lon2_rad = radians lon2;
          dlat = lat2_rad - lat1_rad;
          dlon = lon2_rad - lon1_rad;
          a = (sin (dlat / 2)) ^ 2 + cos lat1_rad * cos lat2_rad * (sin (dlon / 2)) ^ 2
      in 2 * radius_miles * arcsin (sqrt a))"

text \<open>
  \<^verbatim>\<open>_build_cumulative_miles\<close>: the loop over \<^verbatim>\<open>range(1, len(route_points))\<close> reads the
  points \<open>idx - 1\<close> and \<open>idx\<close>, here the first two points of the rest of the route.
\<close>

fun cumulative_loop :: "(real \<times> real) list \<Rightarrow> real list \<Rightarrow> real list" where
  "cumulative_loop ((lat1, lon1) # (lat2, lon2) # rest) cumulative =
     cumulative_loop ((lat2, lon2) # rest)
       (cumulative @ [last cumulative + haversine_miles lat1 lon1 lat2 lon2])"
| "cumulative_loop [p] cumulative = cumulative"
| "cumulative_loop [] cumulative = cumulative"

definition build_cumulative_miles :: "(real \<times> real) list \<Rightarrow> real list" where
  "build_cumulative_miles route_points =
     (if route_points = [] then [0] else cumulative_loop route_points [0])"

text \<open>\<^verbatim>\<open>_route_bbox\<close>; \<^verbatim>\<open>min\<close> and \<^verbatim>\<open>max\<close> of an empty list raise \<^verbatim>\<open>ValueError\<close>.\<close>

definition route_bbox :: "(real \<times> real) list \<Rightarrow> real \<Rightarrow> py_error + (real \<times> real \<times> real \<times> real)" where
  "route_bbox route_points padding_miles =
     (let lats = map fst route_points;
          lons = map snd route_points;
          lat_pad = padding_miles / 69
      in if lats = [] then Inl ValueError
         else
           (let mid_lat = (Min (set lats) + Max (set lats)) / 2;
                lon_denominator = (69172 / 1000) * max (2 / 10) \<bar>cos (radians mid_lat)\<bar>;
                lon_pad = padding_miles / lon_denominator
            in Inr (Min (set lats) - lat_pad, Max (set lats) + lat_pad,
                    Min (set lons) - lon_pad, Max (set lons) + lon_pad)))"

subsection \<open>Corridor indexer\<close>

text \<open>
  \<^verbatim>\<open>list(range(0, n, stride))\<close>, with the last index appended when the stride misses it.
\<close>

definition sampled_indexes :: "nat \<Rightarrow> nat list" where
  "sampled_indexes n =
     (let stride = max 1 (n div 800);
          idxs = map (\<lambda>i. i * stride) [0..<(n + stride - 1) div stride]
      in if last idxs \<noteq> n - 1 then idxs @ [n - 1] else idxs)"

text \<open>
  The inner loop of \<^verbatim>\<open>_map_stations_to_route\<close>: \<open>best_distance\<close> starts at
  \<^verbatim>\<open>float("inf")\<close>, which is \<open>None\<close> here.
\<close>

fun nearest_loop ::
  "station \<Rightarrow> (real \<times> real) list \<Rightarrow> nat list \<Rightarrow> real option \<Rightarrow> nat \<Rightarrow> real option \<times> nat" where
  "nearest_loop st route_points [] best_distance best_index = (best_distance, best_index)"
| "nearest_loop st route_points (idx # idxs) best_distance best_index =
     (let (route_lat, route_lon) = route_points ! idx;
          distance = haversine_miles (latitude st) (longitude st) route_lat route_lon
      in if (case best_distance of None \<Rightarrow> True | Some b \<Rightarrow> distance < b)
         then nearest_loop st route_points idxs (Some distance) idx
         else nearest_loop st route_points idxs best_distance best_index)"

text \<open>
  The outer loop: a station is appended only when \<open>best_distance \<le> CORRIDOR_RADIUS_MILES\<close>;
  \<^verbatim>\<open>cumulative[best_index]\<close> raises \<^verbatim>\<open>IndexError\<close> out of range.
\<close>

fun map_loop ::
  "(real \<times> real) list \<Rightarrow> real list \<Rightarrow> nat list \<Rightarrow> station list \<Rightarrow> mapped_station list
     \<Rightarrow> py_error + mapped_station list" where
  "map_loop route_points cumulative idxs [] mapped = Inr mapped"
| "map_loop route_points cumulative idxs (st # rest) mapped =
     (case nearest_loop st route_points idxs None 0 of
        (best_distance, best_index) \<Rightarrow>
          (case best_distance of
             None \<Rightarrow> map_loop route_points cumulative idxs rest mapped
           | Some d \<Rightarrow>
               if d \<le> CORRIDOR_RADIUS_MILES then
                 (if best_index < length cumulative then
                    map_loop route_points cumulative idxs rest
                      (mapped @ [\<lparr>name = name st, city = city st, state = state st,
                                  price = price st, latitude = latitude st,
                                  longitude = longitude st,
                                  route_mile = cumulative ! best_index,
                                  detour_miles = d\<rparr>])
                  else Inl IndexError)
               else map_loop route_points cumulative idxs rest mapped))"

definition map_stations_to_route ::
  "env \<Rightarrow> (real \<times> real) list \<Rightarrow> real list \<Rightarrow> py_error + mapped_station list" where
  "map_stations_to_route e route_points cumulative =
     (if route_points = [] then Inr []
      else
        (case route_bbox route_points (CORRIDOR_RADIUS_MILES + 20) of
           Inl err \<Rightarrow> Inl err
         | Inr (lat_min, lat_max, lon_min, lon_max) \<Rightarrow>
             (let candidates =
                    filter (\<lambda>st. lat_min \<le> latitude st \<and> latitude st \<le> lat_max
                                 \<and> lon_min \<le> longitude st \<and> longitude st \<le> lon_max)
                      (load_station_rows e)
              in if candidates = [] then Inr []
                 else map_loop route_points cumulative
                        (sampled_indexes (length route_points)) candidates [])))"

subsection \<open>Stop selector\<close>

definition score_station :: "mapped_station \<Rightarrow> real \<Rightarrow> real" where
  "score_station st marker =
     dadd (dadd (price st) (dmul (detour_miles st) DETOUR_WEIGHT))
          (dmul \<bar>dsub (route_mile st) marker\<bar> WAYPOINT_WEIGHT)"

text \<open>
  \<^verbatim>\<open>min(candidates, key=...)\<close>: the first item is kept until a later one has a strictly
  smaller key; an empty list raises \<^verbatim>\<open>ValueError\<close> (here \<open>None\<close>).
\<close>

fun min_loop :: "('a \<Rightarrow> real) \<Rightarrow> 'a \<Rightarrow> 'a list \<Rightarrow> 'a" where
  "min_loop key best [] = best"
| "min_loop key best (x # xs) =
     (if key x < key best then min_loop key x xs else min_loop key best xs)"

definition py_min :: "('a \<Rightarrow> real) \<Rightarrow> 'a list \<Rightarrow> 'a option" where
  "py_min key xs = (case xs of [] \<Rightarrow> None | x # rest \<Rightarrow> Some (min_loop key x rest))"

text \<open>
  The \<^verbatim>\<open>for window in WAYPOINT_WINDOWS_MILES\<close> loop of \<^verbatim>\<open>_select_station\<close>: \<open>Some\<close> is the
  \<^verbatim>\<open>return\<close> inside the loop, \<open>None\<close> is the loop running to its end.
\<close>

fun window_loop :: "mapped_station list \<Rightarrow> real \<Rightarrow> real \<Rightarrow> real list \<Rightarrow> mapped_station option" where
  "window_loop mapped_stations marker previous_marker [] = None"
| "window_loop mapped_stations marker previous_marker (window # windows) =
     (let candidates =
            filter (\<lambda>st. \<bar>dsub (route_mile st) marker\<bar> \<le> window
                          \<and> route_mile st \<ge> dsub previous_marker 40) mapped_stations
      in if candidates \<noteq> [] then py_min (\<lambda>st. score_station st marker) candidates
         else window_loop mapped_stations marker previous_marker windows)"

definition select_station :: "mapped_station list \<Rightarrow> real \<Rightarrow> real \<Rightarrow> mapped_station option" where
  "select_station mapped_stations marker previous_marker =
     (if mapped_stations = [] then None
      else
        (case window_loop mapped_stations marker previous_marker WAYPOINT_WINDOWS_MILES of
           Some st \<Rightarrow> Some st
         | None \<Rightarrow>
             (let candidates =
                    filter (\<lambda>st. route_mile st \<ge> dsub previous_marker 40) mapped_stations;
                  candidates = (if candidates = [] then mapped_stations else candidates)
              in py_min (\<lambda>st. score_station st marker) candidates)))"

text \<open>
  The selection procedure in the words of the specification, to compare
  \<open>select_station\<close> with: for each window radius in the ascending sequence 60, 120, 200, 320
  the candidates are the mapped stations with \<open>\<bar>route_mile - marker\<bar> \<le> window\<close> and
  \<open>route_mile \<ge> previous_marker - 40\<close>; the first non-empty window wins; otherwise all
  stations with \<open>route_mile \<ge> previous_marker - 40\<close>, and if there are none the entire mapped
  set. The choice is the candidate of minimal score
  \<open>price_per_gallon + detour_miles * 0.04 + \<bar>route_mile - marker\<bar> * 0.002\<close>, the first one in
  list order among equals. The differences, products and sums are those of floats.
\<close>

definition first_minimizer :: "('a \<Rightarrow> real) \<Rightarrow> 'a list \<Rightarrow> 'a option" where
  "first_minimizer key xs = find (\<lambda>x. \<forall>y \<in> set xs. key x \<le> key y) xs"

definition spec_score :: "mapped_station \<Rightarrow> real \<Rightarrow> real" where
  "spec_score st marker =
     dadd (dadd (price st) (dmul (detour_miles st) (to_double (4 / 100))))
          (dmul \<bar>dsub (route_mile st) marker\<bar> (to_double (2 / 1000)))"

definition spec_window :: "mapped_station list \<Rightarrow> real \<Rightarrow> real \<Rightarrow> real \<Rightarrow> mapped_station list" where
  "spec_window mapped marker previous window =
     filter (\<lambda>st. \<bar>dsub (route_mile st) marker\<bar> \<le> window
                   \<and> route_mile st \<ge> dsub previous 40) mapped"

definition spec_candidates :: "mapped_station list \<Rightarrow> real \<Rightarrow> real \<Rightarrow> mapped_station list" where
  "spec_candidates mapped marker previous =
     (case find (\<lambda>window. spec_window mapped marker previous window \<noteq> []) [60, 120, 200, 320] of
        Some window \<Rightarrow> spec_window mapped marker previous window
      | None \<Rightarrow>
          (if filter (\<lambda>st. route_mile st \<ge> dsub previous 40) mapped \<noteq> []
           then filter (\<lambda>st. route_mile st \<ge> dsub previous 40) mapped
           else mapped))"

definition spec_choice :: "mapped_station list \<Rightarrow> real \<Rightarrow> real \<Rightarrow> mapped_station option" where
  "spec_choice mapped marker previous =
     first_minimizer (\<lambda>st. spec_score st marker) (spec_candidates mapped marker previous)"

subsection \<open>Trip assembler\<close>

text \<open>
  \<^verbatim>\<open>round(x, ndigits)\<close>: the multiple of \<open>10 ^ - ndigits\<close> nearest to \<open>x\<close>, ties to the even one.
  Python returns the double nearest to this decimal, which has its sign and compares with
  other such results as the decimals do; the decimal stands for it.
\<close>

definition py_round :: "real \<Rightarrow> nat \<Rightarrow> real" where
  "py_round x ndigits = of_int (round_half_even (x * 10 ^ ndigits)) / 10 ^ ndigits"

text \<open>
  A fuel stop is a dictionary with or without the key \<^verbatim>\<open>"name"\<close>: \<open>Gap\<close> is the entry with a
  \<^verbatim>\<open>"note"\<close>, \<open>Filled\<close> the entry with the station's fields, in the order of the source's keys.
\<close>

datatype fuel_stop =
    Gap (order: nat) (route_mile_marker: real) (segment_distance_miles: real) (stop_note: string)
  | Filled (order: nat) (route_mile_marker: real) (segment_distance_miles: real)
      (stop_name: string) (stop_city: string) (stop_state: string)
      (stop_latitude: real) (stop_longitude: real)
      (distance_to_route_miles: real) (price_per_gallon_usd: real)
      (gallons_purchased: real) (segment_cost_usd: real)

text \<open>\<^verbatim>\<open>"name" in stop\<close>\<close>

fun has_name :: "fuel_stop \<Rightarrow> bool" where
  "has_name (Gap _ _ _ _) = False"
| "has_name (Filled _ _ _ _ _ _ _ _ _ _ _ _) = True"

record loop_state =
  fuel_stops :: "fuel_stop list"
  total_cost :: real
  previous_marker :: real
  missing_station_markers :: "real list"

text \<open>
  The \<^verbatim>\<open>for order, marker in enumerate(waypoints, start=1)\<close> loop of \<^verbatim>\<open>_build_trip_plan\<close>,
  over the list of pairs \<open>(order, marker)\<close>.
\<close>

fun stops_loop ::
  "mapped_station list \<Rightarrow> real \<Rightarrow> (nat \<times> real) list \<Rightarrow> loop_state \<Rightarrow> loop_state" where
  "stops_loop mapped_stations total_distance_miles [] s = s"
| "stops_loop mapped_stations total_distance_miles ((ord, marker) # rest) s =
     (let segment_distance = min MAX_RANGE_MILES (total_distance_miles - marker) in
      if segment_distance \<le> 0 then stops_loop mapped_stations total_distance_miles rest s
      else
        (case select_station mapped_stations marker (previous_marker s) of
           None \<Rightarrow>
             stops_loop mapped_stations total_distance_miles rest
               (s\<lparr>missing_station_markers := missing_station_markers s @ [py_round marker 2],
                   fuel_stops := fuel_stops s @
                     [Gap ord (py_round marker 2) (py_round segment_distance 2)
                        ''No geocoded station found near this route segment.''],
                   previous_marker := marker\<rparr>)
         | Some st \<Rightarrow>
             (let gallons = segment_distance / MPG;
                  segment_cost = gallons * price st
              in stops_loop mapped_stations total_distance_miles rest
                   (s\<lparr>total_cost := total_cost s + segment_cost,
                       previous_marker := marker,
                       fuel_stops := fuel_stops s @
                         [Filled ord (py_round marker 2) (py_round segment_distance 2)
                            (name st) (city st) (state st) (latitude st) (longitude st)
                            (py_round (detour_miles st) 2) (py_round (price st) 3)
                            (py_round gallons 2) (py_round segment_cost 2)]\<rparr>))))"

definition enumerate_from_1 :: "'a list \<Rightarrow> (nat \<times> 'a) list" where
  "enumerate_from_1 xs = zip [1..<Suc (length xs)] xs"

text \<open>
  \<^verbatim>\<open>_resolve_location\<close>, with the calls it makes: the coordinates, \<open>Inr None\<close> for Python's
  \<^verbatim>\<open>None\<close>, or the exception that escapes \<open>parse_coords\<close>. The outer \<open>option\<close> is that of
  \<open>parse_coords\<close>.
\<close>

definition resolve_location ::
  "env \<Rightarrow> pyval \<Rightarrow> (call list \<times> (py_error + (real \<times> real) option)) option" where
  "resolve_location e raw_value =
     (case parse_coords e raw_value of
        None \<Rightarrow> None
      | Some (Inl err) \<Rightarrow> Some ([], Inl err)
      | Some (Inr (Some coords)) \<Rightarrow> Some ([], Inr (Some coords))
      | Some (Inr None) \<Rightarrow>
          (case raw_value of
             PStr s \<Rightarrow>
               if strip s = [] then Some ([], Inr None)
               else Some ([GeocodeCall s], Inr (geocode_address_opencage e s))
           | _ \<Rightarrow> Some ([], Inr None)))"

definition to_route_points ::
  "(real \<times> real) list \<Rightarrow> real \<times> real \<Rightarrow> real \<times> real \<Rightarrow> (real \<times> real) list" where
  "to_route_points decoded_points start_coords finish_coords =
     (if decoded_points \<noteq> [] then decoded_points
      else [(snd start_coords, fst start_coords), (snd finish_coords, fst finish_coords)])"

definition trip_cache_key :: "env \<Rightarrow> pyval \<Rightarrow> pyval \<Rightarrow> bool \<Rightarrow> string" where
  "trip_cache_key e start_raw finish_raw start_with_full_tank =
     (let start_key = (case start_raw of PStr s \<Rightarrow> strip s | _ \<Rightarrow> json_dumps e start_raw);
          finish_key = (case finish_raw of PStr s \<Rightarrow> strip s | _ \<Rightarrow> json_dumps e finish_raw)
      in ''trip:v2:'' @ start_key @ '':'' @ finish_key @ '':''
           @ (if start_with_full_tank then ''1'' else ''0''))"

text \<open>
  The plan and the response bodies are dictionaries with string keys, kept in insertion
  order; a value is one of the shapes the source builds.
\<close>

record summary =
  total_distance_miles :: real
  total_fuel_consumed_gallons :: real
  total_fuel_purchased_gallons :: real
  total_fuel_cost_usd :: real
  number_of_fuel_stops :: nat

datatype plan_value =
    Endpoint pyval "real \<times> real"
  | Assumptions real real bool real
  | Summary summary
  | FuelStops "fuel_stop list"
  | Polyline "string option"
  | StartEndMap string string
  | Text string
  | Warnings "real list" string
  | Example string string bool

type_synonym pydict = "(string \<times> plan_value) list"

definition build_start_end_map_urls :: "env \<Rightarrow> real \<times> real \<Rightarrow> real \<times> real \<Rightarrow> plan_value" where
  "build_start_end_map_urls e start_coords finish_coords =
     (let start_lat = str_of_float e (snd start_coords);
          start_lon = str_of_float e (fst start_coords);
          end_lat = str_of_float e (snd finish_coords);
          end_lon = str_of_float e (fst finish_coords)
      in StartEndMap
           (''https://www.openstreetmap.org/directions''
              @ ''?engine=fossgis_osrm_car&route='' @ start_lat @ ''%2C'' @ start_lon
              @ ''%3B'' @ end_lat @ ''%2C'' @ end_lon)
           (''https://www.google.com/maps/dir/?api=1''
              @ ''&origin='' @ quote_plus e (start_lat @ '','' @ start_lon)
              @ ''&destination='' @ quote_plus e (end_lat @ '','' @ end_lon)
              @ ''&travelmode=driving''))"

text \<open>\<^verbatim>\<open>plan["summary"]\<close> and \<^verbatim>\<open>plan["fuel_stops"]\<close>\<close>

definition plan_summary :: "pydict \<Rightarrow> summary option" where
  "plan_summary plan = (case map_of plan ''summary'' of Some (Summary sm) \<Rightarrow> Some sm | _ \<Rightarrow> None)"

definition plan_fuel_stops :: "pydict \<Rightarrow> fuel_stop list" where
  "plan_fuel_stops plan = (case map_of plan ''fuel_stops'' of Some (FuelStops xs) \<Rightarrow> xs | _ \<Rightarrow> [])"

datatype trip_error = TripPlanningError string nat | Uncaught py_error

text \<open>
  \<^verbatim>\<open>total_distance_miles = cumulative_miles[-1] if cumulative_miles else
  float(distance_meters) / 1609.344\<close>
\<close>

definition total_distance_of :: "real list \<Rightarrow> real \<Rightarrow> real" where
  "total_distance_of cumulative_miles distance_meters =
     (if cumulative_miles \<noteq> [] then last cumulative_miles
      else distance_meters / (1609344 / 1000))"

text \<open>
  \<^verbatim>\<open>_build_trip_plan\<close> from the routed path on: everything after the
  \<^verbatim>\<open>distance_meters is None\<close> test.
\<close>

definition assemble_plan ::
  "env \<Rightarrow> pyval \<Rightarrow> pyval \<Rightarrow> bool \<Rightarrow> real \<times> real \<Rightarrow> real \<times> real \<Rightarrow> real \<Rightarrow> string option
     \<Rightarrow> (real \<times> real) list \<Rightarrow> trip_error + pydict" where
  "assemble_plan e start_raw finish_raw start_with_full_tank start_coords finish_coords
       distance_meters encoded_polyline decoded_route =
     (let route_points = to_route_points decoded_route start_coords finish_coords;
          cumulative_miles = build_cumulative_miles route_points;
          total_distance = total_distance_of cumulative_miles distance_meters
      in case map_stations_to_route e route_points cumulative_miles of
           Inl err \<Rightarrow> Inl (Uncaught err)
         | Inr mapped_stations \<Rightarrow>
             (let waypoints = build_waypoint_markers total_distance start_with_full_tank;
                  s = stops_loop mapped_stations total_distance (enumerate_from_1 waypoints)
                        \<lparr>fuel_stops = [], total_cost = 0, previous_marker = - MAX_RANGE_MILES,
                         missing_station_markers = []\<rparr>;
                  purchasable_distance =
                    max (total_distance - (if start_with_full_tank then MAX_RANGE_MILES else 0)) 0;
                  total_purchased_gallons = purchasable_distance / MPG;
                  start_link = (case start_raw of PStr t \<Rightarrow> t
                     | _ \<Rightarrow> str_of_float e (fst start_coords) @ '','' @ str_of_float e (snd start_coords));
                  finish_link = (case finish_raw of PStr t \<Rightarrow> t
                     | _ \<Rightarrow> str_of_float e (fst finish_coords) @ '','' @ str_of_float e (snd finish_coords));
                  plan =
                    [(''start'', Endpoint start_raw start_coords),
                     (''finish'', Endpoint finish_raw finish_coords),
                     (''assumptions'',
                        Assumptions MAX_RANGE_MILES MPG start_with_full_tank CORRIDOR_RADIUS_MILES),
                     (''summary'', Summary
                        \<lparr>total_distance_miles = py_round total_distance 2,
                         total_fuel_consumed_gallons = py_round (total_distance / MPG) 2,
                         total_fuel_purchased_gallons = py_round total_purchased_gallons 2,
                         total_fuel_cost_usd = py_round (total_cost s) 2,
                         number_of_fuel_stops = length (filter has_name (fuel_stops s))\<rparr>),
                     (''fuel_stops'', FuelStops (fuel_stops s)),
                     (''route_polyline'', Polyline encoded_polyline),
                     (''start_end_map'', build_start_end_map_urls e start_coords finish_coords),
                     (''map_url'', Text
                        (''/map/?start='' @ quote_plus e start_link
                           @ ''&finish='' @ quote_plus e finish_link
                           @ ''&start_with_full_tank=''
                           @ (if start_with_full_tank then ''true'' else ''false'')))]
              in if missing_station_markers s \<noteq> [] then
                   Inr (plan @ [(''warnings'', Warnings (missing_station_markers s)
                      ''Some stops were estimated because no geocoded station was found nearby.'')])
                 else Inr plan))"

text \<open>
  \<^verbatim>\<open>_build_trip_plan\<close>: the calls made, in order, and the plan or the exception raised.
\<close>

definition build_trip_plan ::
  "env \<Rightarrow> pyval \<Rightarrow> pyval \<Rightarrow> bool \<Rightarrow> (call list \<times> (trip_error + pydict)) option" where
  "build_trip_plan e start_raw finish_raw start_with_full_tank =
     (case resolve_location e start_raw of
        None \<Rightarrow> None
      | Some (calls1, Inl err) \<Rightarrow> Some (calls1, Inl (Uncaught err))
      | Some (calls1, Inr start_coords) \<Rightarrow>
          (case resolve_location e finish_raw of
             None \<Rightarrow> None
           | Some (calls2, Inl err) \<Rightarrow> Some (calls1 @ calls2, Inl (Uncaught err))
           | Some (calls2, Inr finish_coords) \<Rightarrow>
               (case (start_coords, finish_coords) of
                  (Some sc, Some fc) \<Rightarrow>
                    if \<not> is_probably_us (fst sc) (snd sc) \<or> \<not> is_probably_us (fst fc) (snd fc)
                    then Some (calls1 @ calls2, Inl (TripPlanningError
                           ''Start and finish must be locations within the USA.'' 400))
                    else
                      (case get_route e sc fc of
                         (None, encoded_polyline, decoded_route) \<Rightarrow>
                           Some (calls1 @ calls2 @ [RouteCall sc fc], Inl (TripPlanningError
                             ''Route service failed. Check API key/quota and try again.'' 502))
                       | (Some distance_meters, encoded_polyline, decoded_route) \<Rightarrow>
                           Some (calls1 @ calls2 @ [RouteCall sc fc, StationRowsCall],
                                 assemble_plan e start_raw finish_raw start_with_full_tank sc fc
                                   distance_meters encoded_polyline decoded_route))
                | _ \<Rightarrow>
                    Some (calls1 @ calls2, Inl (TripPlanningError
                      ''Invalid start or finish. Use US address text or coordinates [lon, lat].''
                      400)))))"

text \<open>The plan of a call of \<open>build_trip_plan\<close> that returned one.\<close>

definition trip_plan_of :: "(call list \<times> (trip_error + pydict)) option \<Rightarrow> pydict" where
  "trip_plan_of r = (case r of Some (calls, Inr plan) \<Rightarrow> plan | _ \<Rightarrow> [])"

subsection \<open>The request handler\<close>

definition extract_inputs :: "env \<Rightarrow> request \<Rightarrow> py_error + (pyval \<times> pyval \<times> bool)" where
  "extract_inputs e req =
     (case parse_body e req of
        Inl err \<Rightarrow> Inl err
      | Inr payload \<Rightarrow>
          (let start = (case query_get (GET req) ''start'' of
                          Some t \<Rightarrow> PStr t
                        | None \<Rightarrow> py_or (dict_get payload ''start'' PNone)
                                         (dict_get payload ''start_coords'' PNone));
               finish = (case query_get (GET req) ''finish'' of
                           Some t \<Rightarrow> PStr t
                         | None \<Rightarrow> py_or (py_or (dict_get payload ''finish'' PNone)
                                                 (dict_get payload ''end'' PNone))
                                          (dict_get payload ''end_coords'' PNone));
               start_with_full_tank =
                 parse_bool e
                   (case query_get (GET req) ''start_with_full_tank'' of
                      Some t \<Rightarrow> PStr t
                    | None \<Rightarrow> dict_get payload ''start_with_full_tank'' (PBool False))
                   False
           in Inr (start, finish, start_with_full_tank)))"

record response =
  status :: nat
  payload :: pydict

text \<open>\<^verbatim>\<open>d = dict(plan); d.pop(key, None)\<close>\<close>

definition dict_pop :: "string \<Rightarrow> pydict \<Rightarrow> pydict" where
  "dict_pop key d = filter (\<lambda>(k, v). k \<noteq> key) d"

type_synonym cache = "(string \<times> pydict) list"

definition cache_get :: "cache \<Rightarrow> string \<Rightarrow> pydict option" where
  "cache_get c key = map_of c key"

definition cache_set :: "cache \<Rightarrow> string \<Rightarrow> pydict \<Rightarrow> cache" where
  "cache_set c key v = (key, v) # c"

text \<open>
  \<^verbatim>\<open>route_distance\<close>: the response (or the exception that escapes), the cache afterwards and
  the calls made to the cache and the collaborators, in order. The cache's expiry
  (\<^verbatim>\<open>timeout=60 * 15\<close>) is not modelled.
\<close>

definition route_distance ::
  "env \<Rightarrow> cache \<Rightarrow> request \<Rightarrow> ((py_error + response) \<times> cache \<times> call list) option" where
  "route_distance e c req =
     (case extract_inputs e req of
        Inl err \<Rightarrow> Some (Inl err, c, [])
      | Inr (start, finish, start_with_full_tank) \<Rightarrow>
          if start = PNone \<or> finish = PNone then
            Some (Inr \<lparr>status = 400,
                       payload = [(''error'', Text ''Both start and finish are required.''),
                                  (''example'', Example ''Los Angeles, CA'' ''Dallas, TX'' False)]\<rparr>,
                  c, [])
          else
            (let cache_key = trip_cache_key e start finish start_with_full_tank in
             case cache_get c cache_key of
               Some cached \<Rightarrow>
                 Some (Inr \<lparr>status = 200, payload = dict_pop ''route_polyline'' cached\<rparr>,
                       c, [CacheGet cache_key])
             | None \<Rightarrow>
                 (case build_trip_plan e start finish start_with_full_tank of
                    None \<Rightarrow> None
                  | Some (calls, Inl (TripPlanningError msg st)) \<Rightarrow>
                      Some (Inr \<lparr>status = st, payload = [(''error'', Text msg)]\<rparr>,
                            c, CacheGet cache_key # calls)
                  | Some (calls, Inl (Uncaught err)) \<Rightarrow>
                      Some (Inl err, c, CacheGet cache_key # calls)
                  | Some (calls, Inr plan) \<Rightarrow>
                      Some (Inr \<lparr>status = 200, payload = dict_pop ''route_polyline'' plan\<rparr>,
                            cache_set c cache_key plan,
                            CacheGet cache_key # calls @ [CacheSet cache_key]))))"





subsection \<open>Example data\<close>

text \<open>
  Mapped stations for the selector: two with equal prices whose scores differ in the last
  binary digit only, and two of which one lies on the edge of the widest window. A route along the meridian 100 W from latitude
  30 to latitude 38, with one station at its start and one station four degrees of latitude
  away from both of its sampled points. A decoder that rejects every text as JSON, one that
  fails on deep nesting, a \<^verbatim>\<open>float\<close> that reads four texts, and a router that returns a
  routed distance, an encoded path and the decoded path given.
\<close>

definition ex_a :: mapped_station where
  "ex_a = \<lparr>name = ''A'', city = ''Barstow'', state = ''CA'', price = 2,
       latitude = 35, longitude = - 117, route_mile = 440, detour_miles = 5\<rparr>"

definition ex_b :: mapped_station where
  "ex_b = \<lparr>name = ''B'', city = ''Needles'', state = ''CA'', price = 2,
       latitude = 35, longitude = - 115, route_mile = 500, detour_miles = 8\<rparr>"

definition ex_tie :: "mapped_station list" where
  "ex_tie = [ex_a, ex_b]"

definition ex_s1 :: mapped_station where
  "ex_s1 = \<lparr>name = ''S1'', city = ''Kingman'', state = ''AZ'', price = 5,
       latitude = 35, longitude = - 114, route_mile = 6333186975989759 / 35184372088832,
       detour_miles = 0\<rparr>"

definition ex_s2 :: mapped_station where
  "ex_s2 = \<lparr>name = ''S2'', city = ''Barstow'', state = ''CA'', price = 1,
       latitude = 35, longitude = - 117, route_mile = 100, detour_miles = 0\<rparr>"

definition ex_edge :: "mapped_station list" where
  "ex_edge = [ex_s1, ex_s2]"

definition ex_near :: station where
  "ex_near = \<lparr>name = ''Border Fuel'', city = ''Del Rio'', state = ''TX'', price = 3,
       latitude = 30, longitude = - 100\<rparr>"

definition ex_far :: station where
  "ex_far = \<lparr>name = ''Far Fuel'', city = ''Childress'', state = ''TX'', price = 2,
       latitude = 34, longitude = - 100\<rparr>"

definition ex_rows :: "station list" where
  "ex_rows = [ex_near, ex_far]"

definition ex_route :: "(real \<times> real) list" where
  "ex_route = [(30, - 100), (38, - 100)]"

definition ex_total :: real where
  "ex_total = (39587613 / 10000) * (8 * pi / 180)"

definition ex_env_with :: "station list \<Rightarrow> (real \<times> real) list \<Rightarrow> env" where
  "ex_env_with rows route =
     \<lparr>json_loads = (\<lambda>t. Inl JSONDecodeError),
      json_dumps = (\<lambda>v. ''null''),
      float_of_str = map_of [(''-100'', - 100), (''30'', 30), (''38'', 38),
                             (''30.0001'', 300001 / 10000)],
      str_of = (\<lambda>v. ''?''),
      str_of_float = (\<lambda>x. ''?''),
      quote_plus = (\<lambda>t. t),
      geocode_address_opencage = (\<lambda>t. None),
      get_route = (\<lambda>a b. (Some 5000, Some ''encoded-polyline'', route)),
      load_station_rows = rows\<rparr>"

definition ex_env :: env where
  "ex_env = ex_env_with ex_rows ex_route"

definition ex_env_deep :: env where
  "ex_env_deep = ex_env \<lparr>json_loads := (\<lambda>t. Inl RecursionError)\<rparr>"

definition ex_near_mapped :: mapped_station where
  "ex_near_mapped =
     \<lparr>name = ''Border Fuel'', city = ''Del Rio'', state = ''TX'', price = 3,
      latitude = 30, longitude = - 100, route_mile = 0, detour_miles = 0\<rparr>"

definition ex_mapped_route :: "mapped_station list" where
  "ex_mapped_route = [ex_near_mapped]"

text \<open>
  A second route of one ten-thousandth of a degree of latitude, which the router answers with
  an empty decoded path, a request for the first route, and the start state of the loop over
  the markers.
\<close>

definition ex_short_route :: "(real \<times> real) list" where
  "ex_short_route = [(30, - 100), (300001 / 10000, - 100)]"

definition ex_short_total :: real where
  "ex_short_total = (39587613 / 10000) * ((1 / 10000) * pi / 180)"


definition ex_init :: loop_state where
  "ex_init = \<lparr>fuel_stops = [], total_cost = 0, previous_marker = - MAX_RANGE_MILES,
              missing_station_markers = []\<rparr>"


section \<open>Properties\<close>

subsection \<open>Waypoint markers\<close>

lemma ceiling_step:
  fixes t m :: real
  assumes "m < t"
  shows "nat \<lceil>(t - m) / 500\<rceil> = Suc (nat \<lceil>(t - (m + 500)) / 500\<rceil>)"
proof -
  have eq: "(t - (m + 500)) / 500 = (t - m) / 500 - 1"
    by (simp add: field_simps)
  have pos: "0 < \<lceil>(t - m) / 500\<rceil>"
    using assms by (simp add: field_simps)
  have "\<lceil>(t - (m + 500)) / 500\<rceil> = \<lceil>(t - m) / 500\<rceil> - 1"
    unfolding eq by simp
  with pos show ?thesis by linarith
qed

lemma ceiling_stop:
  fixes t m :: real
  assumes "\<not> m < t"
  shows "nat \<lceil>(t - m) / 500\<rceil> = 0"
  using assms by (simp add: field_simps)

text \<open>The loop in closed form: the markers are \<open>m, m + 500, m + 1000, ...\<close> below \<open>t\<close>.\<close>

lemma markers_loop_eq:
  "markers_loop m t acc =
     acc @ map (\<lambda>k. m + 500 * real k) [0..<nat \<lceil>(t - m) / 500\<rceil>]"
proof (induction m t acc rule: markers_loop.induct)
  case (1 marker total_miles markers)
  show ?case
  proof (cases "marker < total_miles")
    case True
    let ?n = "nat \<lceil>(total_miles - (marker + 500)) / 500\<rceil>"
    have st: "nat \<lceil>(total_miles - marker) / 500\<rceil> = Suc ?n"
      using True by (rule ceiling_step)
    have "markers_loop marker total_miles markers =
            markers_loop (marker + MAX_RANGE_MILES) total_miles (markers @ [marker])"
      using True by (simp add: markers_loop.simps [of marker])
    also have "\<dots> = (markers @ [marker]) @
            map (\<lambda>k. (marker + MAX_RANGE_MILES) + 500 * real k)
              [0..<nat \<lceil>(total_miles - (marker + MAX_RANGE_MILES)) / 500\<rceil>]"
      using 1 True by simp
    also have "\<dots> = markers @ map (\<lambda>k. marker + 500 * real k) [0..<Suc ?n]"
      by (simp add: MAX_RANGE_MILES_def upt_conv_Cons map_Suc_upt[symmetric] del: upt_Suc
            add: algebra_simps)
    finally show ?thesis by (simp only: st)
  next
    case False
    then show ?thesis
      using ceiling_stop [OF False] by (simp add: markers_loop.simps [of marker])
  qed
qed

lemma build_waypoint_markers_eq:
  "build_waypoint_markers t f =
     map (\<lambda>k. (if f then 500 else 0) + 500 * real k)
       [0..<(if t \<le> 0 then 0 else nat \<lceil>(t - (if f then 500 else 0)) / 500\<rceil>)]"
  by (simp add: build_waypoint_markers_def markers_loop_eq MAX_RANGE_MILES_def)

lemma below_ceiling:
  fixes x :: real
  assumes "k < nat \<lceil>x / 500\<rceil>"
  shows "500 * real k < x"
proof -
  have "int k < \<lceil>x / 500\<rceil>" using assms by linarith
  then have "real k < x / 500" by (simp add: less_ceiling_iff)
  then show ?thesis by (simp add: field_simps)
qed

lemma waypoint_markers_below:
  assumes "m \<in> set (build_waypoint_markers total_miles start_with_full_tank)"
  shows "m < total_miles"
proof -
  let ?s = "if start_with_full_tank then 500 else (0::real)"
  let ?n = "if total_miles \<le> 0 then 0 else nat \<lceil>(total_miles - ?s) / 500\<rceil>"
  from assms obtain k where k: "k < ?n" and m: "m = ?s + 500 * real k"
    unfolding build_waypoint_markers_eq by auto
  from k have "k < nat \<lceil>(total_miles - ?s) / 500\<rceil>"
    by (simp split: if_splits)
  then have "500 * real k < total_miles - ?s" by (rule below_ceiling)
  with m show "m < total_miles" by simp
qed

text \<open>
  C3 (as amended). For every total distance and flag, \<open>build_waypoint_markers\<close> returns the
  offsets \<open>s, s + 500, s + 1000, \<dots>\<close> below the total, where \<open>s\<close> is 500 with a full tank and 0
  without: a strictly ascending list, consecutive offsets 500 miles apart, each strictly less
  than the total. The list is non-empty exactly when the total is positive and exceeds \<open>s\<close>,
  and then its first element is \<open>s\<close>; it is empty whenever the total is at most 0, and with a
  full tank whenever the total is at most 500.
\<close>

theorem waypoint_markers_shape:
  "build_waypoint_markers total_miles start_with_full_tank =
     map (\<lambda>k. (if start_with_full_tank then 500 else 0) + 500 * real k)
       [0..<(if total_miles \<le> 0 then 0
             else nat \<lceil>(total_miles - (if start_with_full_tank then 500 else 0)) / 500\<rceil>)]
   \<and> (\<forall>i. Suc i < length (build_waypoint_markers total_miles start_with_full_tank) \<longrightarrow>
        build_waypoint_markers total_miles start_with_full_tank ! Suc i =
        build_waypoint_markers total_miles start_with_full_tank ! i + 500)
   \<and> sorted_wrt (<) (build_waypoint_markers total_miles start_with_full_tank)
   \<and> (\<forall>m \<in> set (build_waypoint_markers total_miles start_with_full_tank). m < total_miles)
   \<and> ((build_waypoint_markers total_miles start_with_full_tank \<noteq> []) =
        (0 < total_miles \<and> (if start_with_full_tank then 500 else 0) < total_miles))
   \<and> (build_waypoint_markers total_miles start_with_full_tank \<noteq> [] \<longrightarrow>
        hd (build_waypoint_markers total_miles start_with_full_tank) =
        (if start_with_full_tank then 500 else 0))
   \<and> (0 < total_miles \<longrightarrow>
        build_waypoint_markers total_miles False \<noteq> []
        \<and> hd (build_waypoint_markers total_miles False) = 0)
   \<and> (500 < total_miles \<longrightarrow>
        build_waypoint_markers total_miles True \<noteq> []
        \<and> hd (build_waypoint_markers total_miles True) = 500)
   \<and> (total_miles \<le> 500 \<longrightarrow> build_waypoint_markers total_miles True = [])
   \<and> (total_miles \<le> 0 \<longrightarrow> build_waypoint_markers total_miles start_with_full_tank = [])"
proof -
  have closed: "\<And>f. build_waypoint_markers total_miles f =
      map (\<lambda>k. (if f then 500 else 0) + 500 * real k)
        [0..<(if total_miles \<le> 0 then 0
              else nat \<lceil>(total_miles - (if f then 500 else 0)) / 500\<rceil>)]"
    by (rule build_waypoint_markers_eq)
  have ne: "\<And>f. (build_waypoint_markers total_miles f \<noteq> []) =
      (0 < total_miles \<and> (if f then 500 else 0) < total_miles)"
  proof -
    fix f
    let ?s = "if f then 500 else (0::real)"
    have "(0 < nat \<lceil>(total_miles - ?s) / 500\<rceil>) = (?s < total_miles)"
      by (simp add: field_simps)
    then show "(build_waypoint_markers total_miles f \<noteq> []) =
      (0 < total_miles \<and> ?s < total_miles)"
      unfolding closed [of f] by (auto split: if_splits)
  qed
  have first: "\<And>f. build_waypoint_markers total_miles f \<noteq> [] \<longrightarrow>
      hd (build_waypoint_markers total_miles f) = (if f then 500 else 0)"
    unfolding closed by (simp add: hd_map upt_conv_Cons del: upt_Suc split: if_splits)
  let ?ms = "build_waypoint_markers total_miles start_with_full_tank"
  have step: "\<forall>i. Suc i < length ?ms \<longrightarrow> ?ms ! Suc i = ?ms ! i + 500"
    unfolding closed [of start_with_full_tank] by (simp add: algebra_simps)
  have asc: "sorted_wrt (<) ?ms"
    unfolding closed [of start_with_full_tank] by (simp add: sorted_wrt_map sorted_wrt_iff_nth_less)
  have below: "\<forall>m \<in> set ?ms. m < total_miles"
    using waypoint_markers_below by blast
  have f0: "0 < total_miles \<longrightarrow> build_waypoint_markers total_miles False \<noteq> []
        \<and> hd (build_waypoint_markers total_miles False) = 0"
    using ne [of False] first [of False] by simp
  have f1: "500 < total_miles \<longrightarrow> build_waypoint_markers total_miles True \<noteq> []
        \<and> hd (build_waypoint_markers total_miles True) = 500"
    using ne [of True] first [of True] by simp
  have e1: "total_miles \<le> 500 \<longrightarrow> build_waypoint_markers total_miles True = []"
    using ne [of True] by auto
  have e0: "total_miles \<le> 0 \<longrightarrow> ?ms = []"
    by (simp add: build_waypoint_markers_def)
  from closed [of start_with_full_tank] step asc below ne [of start_with_full_tank]
    first [of start_with_full_tank] f0 f1 e1 e0
  show ?thesis by blast
qed

theorem waypoint_markers_shape_witness:
  "build_waypoint_markers 1200 False = [0, 500, 1000]
   \<and> sorted_wrt (<) (build_waypoint_markers 1200 False)
   \<and> hd (build_waypoint_markers 1200 False) = 0
   \<and> build_waypoint_markers 1200 False ! Suc 0 = build_waypoint_markers 1200 False ! 0 + 500
   \<and> build_waypoint_markers 1200 True = [500, 1000]
   \<and> hd (build_waypoint_markers 1200 True) = 500
   \<and> build_waypoint_markers 500 True = []
   \<and> build_waypoint_markers 0 False = []"
proof -
  have a: "build_waypoint_markers 1200 False = [0, 500, 1000]"
    and b: "build_waypoint_markers 1200 True = [500, 1000]"
    by (simp_all add: build_waypoint_markers_def MAX_RANGE_MILES_def markers_loop.simps)
  have "(500::real) \<le> 500 \<longrightarrow> build_waypoint_markers 500 True = []"
    using waypoint_markers_shape [of 500 True] by blast
  then have c: "build_waypoint_markers 500 True = []" by simp
  have "(0::real) \<le> 0 \<longrightarrow> build_waypoint_markers 0 False = []"
    using waypoint_markers_shape [of 0 False] by blast
  then have d: "build_waypoint_markers 0 False = []" by simp
  have e: "sorted_wrt (<) (build_waypoint_markers 1200 False)"
    using waypoint_markers_shape [of 1200 False] by blast
  have "(0::real) < 1200 \<longrightarrow> build_waypoint_markers 1200 False \<noteq> []
        \<and> hd (build_waypoint_markers 1200 False) = 0"
    using waypoint_markers_shape [of 1200 False] by blast
  then have f: "hd (build_waypoint_markers 1200 False) = 0" by simp
  have "(500::real) < 1200 \<longrightarrow> build_waypoint_markers 1200 True \<noteq> []
        \<and> hd (build_waypoint_markers 1200 True) = 500"
    using waypoint_markers_shape [of 1200 True] by blast
  then have g: "hd (build_waypoint_markers 1200 True) = 500" by simp
  from a b c d e f g show ?thesis by simp
qed

text \<open>
  The claim as first stated has the first element equal to 500 for every total with a full
  tank: at a total of 300 miles there is no first element.
\<close>

theorem waypoint_markers_first_counterexample:
  "(0::real) < 300
   \<and> build_waypoint_markers 300 True = []
   \<and> take 1 (build_waypoint_markers 300 True) \<noteq> [500]"
  by (simp add: build_waypoint_markers_def MAX_RANGE_MILES_def markers_loop.simps)

text \<open>
  C4. For a total distance \<open>D > 0\<close>, the number of markers without a full tank is
  \<open>\<lceil>D / 500\<rceil>\<close>, and the number with a full tank is smaller by at least one.
\<close>

theorem waypoint_marker_count:
  assumes "0 < D"
  shows "int (length (build_waypoint_markers D False)) = \<lceil>D / 500\<rceil>
     \<and> Suc (length (build_waypoint_markers D True)) \<le> length (build_waypoint_markers D False)"
proof -
  have pos: "0 < \<lceil>D / 500\<rceil>" using assms by simp
  have f: "length (build_waypoint_markers D False) = nat \<lceil>D / 500\<rceil>"
    using assms by (simp add: build_waypoint_markers_eq)
  have t: "length (build_waypoint_markers D True) = nat \<lceil>(D - 500) / 500\<rceil>"
    using assms by (simp add: build_waypoint_markers_eq)
  have eq: "(D - 500) / 500 = D / 500 - 1" by (simp add: field_simps)
  have c: "\<lceil>(D - 500) / 500\<rceil> = \<lceil>D / 500\<rceil> - 1" unfolding eq by simp
  have a: "int (length (build_waypoint_markers D False)) = \<lceil>D / 500\<rceil>"
    using f pos by linarith
  have b: "Suc (length (build_waypoint_markers D True)) \<le> length (build_waypoint_markers D False)"
    using f t c pos by linarith
  from a b show ?thesis by blast
qed

theorem waypoint_marker_count_witness:
  "(0::real) < 1200
   \<and> int (length (build_waypoint_markers 1200 False)) = \<lceil>(1200::real) / 500\<rceil>
   \<and> length (build_waypoint_markers 1200 False) = 3
   \<and> length (build_waypoint_markers 1200 True) = 2"
  using waypoint_marker_count [of 1200]
  by (simp add: build_waypoint_markers_def MAX_RANGE_MILES_def markers_loop.simps)

subsection \<open>Evaluating double precision\<close>

lemma bit_length_0: "bit_length 0 = 0"
  by (simp add: bit_length.simps)

lemma bit_length_pos: "0 < n \<Longrightarrow> bit_length n = Suc (bit_length (n div 2))"
  by (simp add: bit_length.simps [of n])

lemmas double_eval =
  to_double_def ilog2_def Let_def bit_length_0 bit_length_pos round_half_even_def
  dadd_def dsub_def dmul_def

lemma to_double_0: "to_double 0 = 0"
  by (simp add: to_double_def)

lemma detour_weight_value: "DETOUR_WEIGHT = 5764607523034235 / 2 ^ 57"
  by (simp add: DETOUR_WEIGHT_def double_eval)

lemma waypoint_weight_value: "WAYPOINT_WEIGHT = 1152921504606847 / 2 ^ 59"
  by (simp add: WAYPOINT_WEIGHT_def double_eval)

subsection \<open>Great-circle distances that can be computed exactly\<close>

lemma pi_ge_3: "3 \<le> pi"
proof -
  have "sin (pi / 6) \<le> pi / 6" by (rule sin_x_le_x) simp
  then show ?thesis by (simp add: sin_30)
qed

lemma arcsin_abs_sin:
  assumes "\<bar>y\<bar> \<le> pi / 2"
  shows "arcsin \<bar>sin y\<bar> = \<bar>y\<bar>"
proof (cases "0 \<le> y")
  case True
  then have "0 \<le> sin y" using assms by (intro sin_ge_zero) (auto intro: order_trans)
  then show ?thesis using True assms by (simp add: arcsin_sin)
next
  case False
  then have neg: "y < 0" by simp
  have "0 \<le> sin (- y)" using neg assms by (intro sin_ge_zero) auto
  then have "\<bar>sin y\<bar> = sin (- y)" by simp
  then show ?thesis using neg assms by (simp only: arcsin_sin)
qed

lemma haversine_meridian:
  assumes "\<bar>lat2 - lat1\<bar> \<le> 180"
  shows "haversine_miles lat1 lon lat2 lon = (39587613 / 10000) * (\<bar>lat2 - lat1\<bar> * pi / 180)"
proof -
  let ?y = "(radians lat2 - radians lat1) / 2"
  have y: "?y = (lat2 - lat1) * pi / 360" by (simp add: radians_def field_simps)
  have "\<bar>?y\<bar> = \<bar>lat2 - lat1\<bar> * pi / 360" unfolding y by (simp add: abs_mult)
  also have "\<dots> \<le> 180 * pi / 360" using assms by (intro divide_right_mono mult_right_mono) auto
  finally have b: "\<bar>?y\<bar> \<le> pi / 2" by simp
  have "haversine_miles lat1 lon lat2 lon = 2 * (39587613 / 10000) * arcsin \<bar>sin ?y\<bar>"
    by (simp add: haversine_miles_def Let_def)
  also have "\<dots> = 2 * (39587613 / 10000) * \<bar>?y\<bar>" using b by (simp only: arcsin_abs_sin)
  also have "\<dots> = (39587613 / 10000) * (\<bar>lat2 - lat1\<bar> * pi / 180)"
    unfolding y by (simp add: abs_mult)
  finally show ?thesis .
qed

lemma haversine_equator:
  assumes "\<bar>lon2 - lon1\<bar> \<le> 180"
  shows "haversine_miles 0 lon1 0 lon2 = (39587613 / 10000) * (\<bar>lon2 - lon1\<bar> * pi / 180)"
proof -
  let ?y = "(radians lon2 - radians lon1) / 2"
  have y: "?y = (lon2 - lon1) * pi / 360" by (simp add: radians_def field_simps)
  have "\<bar>?y\<bar> = \<bar>lon2 - lon1\<bar> * pi / 360" unfolding y by (simp add: abs_mult)
  also have "\<dots> \<le> 180 * pi / 360" using assms by (intro divide_right_mono mult_right_mono) auto
  finally have b: "\<bar>?y\<bar> \<le> pi / 2" by simp
  have "haversine_miles 0 lon1 0 lon2 = 2 * (39587613 / 10000) * arcsin \<bar>sin ?y\<bar>"
    by (simp add: haversine_miles_def Let_def radians_def)
  also have "\<dots> = 2 * (39587613 / 10000) * \<bar>?y\<bar>" using b by (simp only: arcsin_abs_sin)
  also have "\<dots> = (39587613 / 10000) * (\<bar>lon2 - lon1\<bar> * pi / 180)"
    unfolding y by (simp add: abs_mult)
  finally show ?thesis .
qed

lemma haversine_same: "haversine_miles lat lon lat lon = 0"
  by (simp add: haversine_miles_def Let_def)


subsection \<open>The example route\<close>

lemma ex_total_bounds: "527 < ex_total \<and> ex_total < 704"
  using pi_ge_3 pi_less_4 by (simp add: ex_total_def)

lemma ex_cumulative: "build_cumulative_miles ex_route = [0, ex_total]"
  by (simp add: build_cumulative_miles_def ex_route_def haversine_meridian ex_total_def)

lemma ex_sampled: "sampled_indexes 2 = [0, Suc 0]"
  by code_simp

lemma ex_bbox:
  "\<exists>p \<ge> 0. route_bbox ex_route (CORRIDOR_RADIUS_MILES + 20)
       = Inr (30 - 45 / 69, 38 + 45 / 69, - 100 - p, - 100 + p)"
proof -
  let ?p = "45 / ((69172 / 1000) * max (2 / 10) \<bar>cos (radians 34)\<bar>)"
  have "0 \<le> ?p" by (intro divide_nonneg_nonneg mult_nonneg_nonneg) auto
  moreover have "route_bbox ex_route (CORRIDOR_RADIUS_MILES + 20)
       = Inr (30 - 45 / 69, 38 + 45 / 69, - 100 - ?p, - 100 + ?p)"
    by (simp add: route_bbox_def ex_route_def CORRIDOR_RADIUS_MILES_def Let_def)
  ultimately show ?thesis by blast
qed

lemma ex_nearest_near:
  "nearest_loop ex_near ex_route [0, Suc 0] None 0 = (Some 0, 0)"
  using ex_total_bounds
  by (simp add: ex_near_def ex_route_def haversine_meridian ex_total_def)

lemma ex_far_distance: "25 < (39587613 / 10000) * (4 * pi / 180)"
  using pi_ge_3 by simp

lemma ex_nearest_far:
  "nearest_loop ex_far ex_route [0, Suc 0] None 0 = (Some ((39587613 / 10000) * (4 * pi / 180)), 0)"
  by (simp add: ex_far_def ex_route_def haversine_meridian)

lemma ex_map_loop:
  "map_loop ex_route [0, ex_total] [0, Suc 0] [ex_near, ex_far] [] = Inr ex_mapped_route"
  using ex_far_distance
  by (simp add: ex_nearest_near ex_nearest_far CORRIDOR_RADIUS_MILES_def
        del: nearest_loop.simps)
     (simp add: ex_near_def ex_mapped_route_def ex_near_mapped_def)

lemma ex_map_stations:
  "map_stations_to_route ex_env ex_route [0, ex_total] = Inr ex_mapped_route"
proof -
  obtain p where p: "0 \<le> p" and box: "route_bbox ex_route (CORRIDOR_RADIUS_MILES + 20)
       = Inr (30 - 45 / 69, 38 + 45 / 69, - 100 - p, - 100 + p)"
    using ex_bbox by blast
  have fields: "latitude ex_near = 30" "longitude ex_near = - 100"
      "latitude ex_far = 34" "longitude ex_far = - 100"
    by (simp_all add: ex_near_def ex_far_def)
  have ne: "ex_route \<noteq> []" "length ex_route = 2"
    by (simp_all add: ex_route_def)
  have rows: "load_station_rows ex_env = [ex_near, ex_far]"
    by (simp add: ex_env_def ex_env_with_def ex_rows_def)
  show ?thesis
    unfolding map_stations_to_route_def
    using ne p by (simp add: box rows fields ex_sampled ex_map_loop del: map_loop.simps)
qed


subsection \<open>Stop selector\<close>

lemma min_loop_find:
  "find (\<lambda>x. \<forall>y \<in> set (b # xs). key x \<le> key y) (b # xs) = Some (min_loop key b xs)"
proof (induction xs arbitrary: b)
  case Nil
  then show ?case by simp
next
  case (Cons x xs)
  show ?case
  proof (cases "key x < key b")
    case True
    have agree: "\<And>z. z \<in> set (x # xs) \<Longrightarrow>
        (\<forall>y \<in> set (b # x # xs). key z \<le> key y) = (\<forall>y \<in> set (x # xs). key z \<le> key y)"
      using True by auto
    have "find (\<lambda>z. \<forall>y \<in> set (b # x # xs). key z \<le> key y) (b # x # xs)
        = find (\<lambda>z. \<forall>y \<in> set (b # x # xs). key z \<le> key y) (x # xs)"
      using True by auto
    also have "\<dots> = find (\<lambda>z. \<forall>y \<in> set (x # xs). key z \<le> key y) (x # xs)"
      by (rule find_cong) (use agree in auto)
    also have "\<dots> = Some (min_loop key x xs)" by (rule Cons.IH)
    finally show ?thesis using True by simp
  next
    case False
    show ?thesis
    proof (cases "\<forall>y \<in> set (b # xs). key b \<le> key y")
      case True
      with False Cons.IH [of b] show ?thesis by auto
    next
      case nb: False
      have agree: "\<And>z. z \<in> set xs \<Longrightarrow>
        (\<forall>y \<in> set (b # x # xs). key z \<le> key y) = (\<forall>y \<in> set (b # xs). key z \<le> key y)"
        using False by auto
      have notx: "\<not> (\<forall>y \<in> set (b # x # xs). key x \<le> key y)"
        using False nb by force
      have "find (\<lambda>z. \<forall>y \<in> set (b # x # xs). key z \<le> key y) (b # x # xs)
        = find (\<lambda>z. \<forall>y \<in> set (b # x # xs). key z \<le> key y) xs"
        using nb notx by auto
      also have "\<dots> = find (\<lambda>z. \<forall>y \<in> set (b # xs). key z \<le> key y) xs"
        by (rule find_cong) (use agree in auto)
      also have "\<dots> = find (\<lambda>z. \<forall>y \<in> set (b # xs). key z \<le> key y) (b # xs)"
        using nb by auto
      also have "\<dots> = Some (min_loop key b xs)" by (rule Cons.IH)
      finally show ?thesis using False by simp
    qed
  qed
qed


lemma py_min_first_minimizer: "py_min key xs = first_minimizer key xs"
proof (cases xs)
  case Nil
  then show ?thesis by (simp add: py_min_def first_minimizer_def)
next
  case (Cons b rest)
  then show ?thesis
    using min_loop_find [where key = key and b = b and xs = rest] by (simp add: py_min_def first_minimizer_def)
qed

lemma min_loop_mem: "min_loop key b xs \<in> set (b # xs)"
  by (induction xs arbitrary: b) auto

lemma py_min_mem: "py_min key xs = Some s \<Longrightarrow> s \<in> set xs"
  using min_loop_mem [where key = key] by (auto simp: py_min_def split: list.splits)

lemma py_min_None: "(py_min key xs = None) = (xs = [])"
  by (simp add: py_min_def split: list.splits)

lemma py_min_Some_ex: "(\<exists>y. py_min key xs = Some y) = (xs \<noteq> [])"
  by (simp add: py_min_def split: list.splits)

lemma score_station_spec: "score_station st marker = spec_score st marker"
  by (simp add: score_station_def spec_score_def DETOUR_WEIGHT_def WAYPOINT_WEIGHT_def)

lemma window_loop_spec:
  "window_loop mapped marker prev ws =
     (case find (\<lambda>window. spec_window mapped marker prev window \<noteq> []) ws of
        Some window \<Rightarrow> py_min (\<lambda>st. score_station st marker) (spec_window mapped marker prev window)
      | None \<Rightarrow> None)"
  by (induction ws) (simp_all add: spec_window_def Let_def)

lemma window_loop_None:
  "window_loop mapped marker prev ws = None \<Longrightarrow>
     find (\<lambda>window. spec_window mapped marker prev window \<noteq> []) ws = None"
  by (induction ws) (auto simp: spec_window_def Let_def py_min_None split: if_splits)

text \<open>
  C2. For a non-empty list of mapped stations \<open>select_station\<close> returns the choice of the
  specification's procedure (\<open>spec_choice\<close>: first non-empty window of 60, 120, 200, 320 with
  the 40-mile backtrack bound, else the backtrack bound alone, else every mapped station; the
  first candidate of minimal score), and it returns no station exactly when the list is empty.
\<close>

theorem select_station_refines_spec:
  "(mapped \<noteq> [] \<longrightarrow> select_station mapped marker prev = spec_choice mapped marker prev)
   \<and> ((select_station mapped marker prev = None) = (mapped = []))"
proof -
  have eq: "select_station mapped marker prev = spec_choice mapped marker prev" if ne: "mapped \<noteq> []"
  proof (cases "find (\<lambda>window. spec_window mapped marker prev window \<noteq> []) WAYPOINT_WINDOWS_MILES")
    case None
    then have "window_loop mapped marker prev WAYPOINT_WINDOWS_MILES = None"
      by (simp add: window_loop_spec)
    with None ne show ?thesis
      by (simp add: select_station_def spec_choice_def spec_candidates_def Let_def
            py_min_first_minimizer score_station_spec WAYPOINT_WINDOWS_MILES_def)
  next
    case (Some w)
    then have wne: "spec_window mapped marker prev w \<noteq> []"
      by (auto dest: find_Some_iff [THEN iffD1])
    then obtain s where s: "py_min (\<lambda>st. score_station st marker) (spec_window mapped marker prev w) = Some s"
      using py_min_None [of "\<lambda>st. score_station st marker" "spec_window mapped marker prev w"] by auto
    have "window_loop mapped marker prev WAYPOINT_WINDOWS_MILES = Some s"
      using Some s by (simp add: window_loop_spec)
    with Some ne s show ?thesis
      by (simp add: select_station_def spec_choice_def spec_candidates_def
            py_min_first_minimizer score_station_spec WAYPOINT_WINDOWS_MILES_def)
  qed
  have none: "(select_station mapped marker prev = None) = (mapped = [])"
    by (auto simp: select_station_def Let_def py_min_None py_min_Some_ex split: option.splits)
  from eq none show ?thesis by blast
qed


text \<open>
  Two stations of price 2, at mile 440 with a detour of 5 and at mile 500 with a detour of 8,
  for the marker 500: the scores are 2.3200000000000003 and 2.32 in doubles, so the second
  station is chosen. A station at mile 179.99999999999997 is inside the window of 320 around
  the marker 500, because the difference rounds to 320.
\<close>

lemma ex_tie_scores:
  "score_station ex_a 500 = 326510972984361 / 2 ^ 47"
  "score_station ex_b 500 = 5224175567749775 / 2 ^ 51"
  by (simp_all add: ex_a_def ex_b_def score_station_def detour_weight_value
        waypoint_weight_value double_eval)

lemma ex_windows:
  "dsub 440 500 = - 60" "dsub 500 500 = 0" "dsub 0 40 = - 40" "dsub 100 500 = - 400"
  "\<bar>dsub (6333186975989759 / 35184372088832) 500\<bar> = 320"
  by (simp_all add: double_eval)

lemma ex_select_tie: "select_station ex_tie 500 0 = Some ex_b"
proof -
  have rm: "route_mile ex_a = 440" "route_mile ex_b = 500"
    by (simp_all add: ex_a_def ex_b_def)
  show ?thesis
    by (simp add: ex_tie_def select_station_def WAYPOINT_WINDOWS_MILES_def py_min_def rm
          ex_windows ex_tie_scores)
qed

lemma ex_select_edge: "select_station ex_edge 500 0 = Some ex_s1"
proof -
  have rm: "route_mile ex_s1 = 6333186975989759 / 35184372088832" "route_mile ex_s2 = 100"
    by (simp_all add: ex_s1_def ex_s2_def)
  show ?thesis
    by (simp add: ex_edge_def select_station_def WAYPOINT_WINDOWS_MILES_def py_min_def rm
          ex_windows)
qed

theorem select_station_refines_spec_witness:
  "ex_tie \<noteq> []
   \<and> select_station ex_tie 500 0 = Some ex_b
   \<and> spec_choice ex_tie 500 0 = Some ex_b
   \<and> select_station ex_edge 500 0 = Some ex_s1
   \<and> spec_choice ex_edge 500 0 = Some ex_s1"
proof -
  have ne: "ex_tie \<noteq> []" "ex_edge \<noteq> []" by (simp_all add: ex_tie_def ex_edge_def)
  from select_station_refines_spec [of ex_tie 500 0] ne
  have a: "select_station ex_tie 500 0 = spec_choice ex_tie 500 0" by blast
  from select_station_refines_spec [of ex_edge 500 0] ne
  have b: "select_station ex_edge 500 0 = spec_choice ex_edge 500 0" by blast
  from a b ne ex_select_tie ex_select_edge show ?thesis by simp
qed

lemma window_loop_mem:
  "window_loop mapped marker prev ws = Some s \<Longrightarrow> s \<in> set mapped"
  by (induction ws) (auto simp: Let_def split: if_splits dest: py_min_mem)

lemma select_station_mem:
  "select_station mapped marker prev = Some s \<Longrightarrow> s \<in> set mapped"
  by (auto simp: select_station_def Let_def split: if_splits option.splits
        dest: py_min_mem window_loop_mem)

lemma map_loop_detour:
  "map_loop route_points cumulative idxs sts acc = Inr mapped \<Longrightarrow>
   \<forall>s \<in> set acc. detour_miles s \<le> 25 \<Longrightarrow>
   \<forall>s \<in> set mapped. detour_miles s \<le> 25"
proof (induction sts arbitrary: acc)
  case Nil
  then show ?case by simp
next
  case (Cons st rest)
  obtain bd bi where nl: "nearest_loop st route_points idxs None 0 = (bd, bi)"
    by (cases "nearest_loop st route_points idxs None 0")
  show ?case
  proof (cases bd)
    case None
    with Cons nl show ?thesis by simp
  next
    case (Some d)
    show ?thesis
    proof (cases "d \<le> CORRIDOR_RADIUS_MILES")
      case True
      with Cons.prems nl Some have lt: "bi < length cumulative"
        by (simp split: if_splits)
      let ?acc = "acc @ [\<lparr>name = name st, city = city st, state = state st,
                    price = price st, latitude = latitude st, longitude = longitude st,
                    route_mile = cumulative ! bi, detour_miles = d\<rparr>]"
      have run: "map_loop route_points cumulative idxs rest ?acc = Inr mapped"
        using Cons.prems(1) nl Some True lt by simp
      have inv: "\<forall>s \<in> set ?acc. detour_miles s \<le> 25"
        using Cons.prems(2) True by (simp add: CORRIDOR_RADIUS_MILES_def)
      from Cons.IH [OF run inv] show ?thesis .
    next
      case False
      with Cons nl Some show ?thesis by simp
    qed
  qed
qed

lemma map_stations_to_route_detour:
  assumes "map_stations_to_route e route_points cumulative = Inr mapped"
  shows "\<forall>s \<in> set mapped. detour_miles s \<le> 25"
proof (cases "route_points = []")
  case True
  with assms show ?thesis by (simp add: map_stations_to_route_def)
next
  case False
  show ?thesis
  proof (cases "route_bbox route_points (CORRIDOR_RADIUS_MILES + 20)")
    case (Inl err)
    with assms False show ?thesis by (simp add: map_stations_to_route_def)
  next
    case (Inr box)
    obtain lat_min lat_max lon_min lon_max where box: "box = (lat_min, lat_max, lon_min, lon_max)"
      by (cases box) auto
    let ?cands = "filter (\<lambda>st. lat_min \<le> latitude st \<and> latitude st \<le> lat_max
                                 \<and> lon_min \<le> longitude st \<and> longitude st \<le> lon_max)
                      (load_station_rows e)"
    show ?thesis
    proof (cases "?cands = []")
      case True
      with assms False Inr box show ?thesis by (simp add: map_stations_to_route_def)
    next
      case ne: False
      have "map_loop route_points cumulative (sampled_indexes (length route_points)) ?cands []
              = Inr mapped"
        using assms False Inr box ne by (simp add: map_stations_to_route_def)
      then show ?thesis by (rule map_loop_detour) simp
    qed
  qed
qed

text \<open>
  C1. Whatever the route, the station table, the marker and the previous marker: a station
  that \<open>select_station\<close> returns from the stations mapped by \<open>map_stations_to_route\<close> has
  \<open>detour_miles \<le> 25\<close>.
\<close>

theorem selected_station_within_corridor:
  assumes "map_stations_to_route e route_points cumulative = Inr mapped"
    and "select_station mapped marker prev = Some st"
  shows "detour_miles st \<le> 25"
  using map_stations_to_route_detour [OF assms(1)] select_station_mem [OF assms(2)] by blast


lemma ex_select_first: "select_station ex_mapped_route 0 (- 500) = Some ex_near_mapped"
proof -
  have d: "dsub 0 0 = 0" "dsub (- 500) 40 = - 540" by (simp_all add: double_eval)
  have rm: "route_mile ex_near_mapped = 0" by (simp add: ex_near_mapped_def)
  show ?thesis
    by (simp add: ex_mapped_route_def select_station_def WAYPOINT_WINDOWS_MILES_def py_min_def
          Let_def d rm)
qed

theorem selected_station_within_corridor_witness:
  "map_stations_to_route ex_env ex_route [0, ex_total] = Inr ex_mapped_route
   \<and> select_station ex_mapped_route 0 (- 500) = Some ex_near_mapped
   \<and> detour_miles ex_near_mapped \<le> 25"
  using selected_station_within_corridor [OF ex_map_stations ex_select_first]
    ex_map_stations ex_select_first
  by simp

subsection \<open>Coordinate parsing\<close>

lemma split_on_no_sep: "sep \<notin> set t \<Longrightarrow> split_on sep t = [t]"
  by (induction t) auto

lemma split_on_first: "sep \<notin> set ta \<Longrightarrow> split_on sep (ta @ sep # tb) = ta # split_on sep tb"
  by (induction ta) auto

lemma comma_coords_pair:
  assumes "CHR '','' \<notin> set ta"
    and "CHR '','' \<notin> set tb"
    and "float_of_str e (strip ta) = Some a"
    and "float_of_str e (strip tb) = Some b"
  shows "comma_coords e (ta @ CHR '','' # tb) =
           Some (if \<bar>b\<bar> > 90 \<and> \<bar>a\<bar> \<le> 90 then (b, a) else (a, b))"
proof -
  have parts: "map strip (split_on CHR '','' (ta @ CHR '','' # tb)) = [strip ta, strip tb]"
    using assms(1,2) by (simp add: split_on_first split_on_no_sep)
  show ?thesis
    unfolding comma_coords_def parts using assms(3,4) by (simp add: Let_def)
qed

lemma parse_coords_rejected_text:
  assumes "strip s \<noteq> []"
    and "json_loads e (strip s) = Inl JSONDecodeError"
  shows "parse_coords e (PStr s) = Some (Inr (comma_coords e (strip s)))"
  by (subst parse_coords.simps) (use assms in \<open>simp add: Let_def\<close>)

text \<open>
  C7. For a text \<open>a,b\<close> of two numeric parts (that \<^verbatim>\<open>json.loads\<close> rejects with a
  \<^verbatim>\<open>JSONDecodeError\<close>, as it rejects every such text), \<open>parse_coords\<close> returns \<open>[b, a]\<close> when
  \<open>\<bar>b\<bar> > 90\<close> and \<open>\<bar>a\<bar> \<le> 90\<close>, and \<open>[a, b]\<close> in every other case.
\<close>

theorem parse_coords_comma_text:
  assumes form: "strip s = ta @ CHR '','' # tb"
    and ta: "CHR '','' \<notin> set ta"
    and tb: "CHR '','' \<notin> set tb"
    and json: "json_loads e (strip s) = Inl JSONDecodeError"
    and a: "float_of_str e (strip ta) = Some a"
    and b: "float_of_str e (strip tb) = Some b"
  shows "parse_coords e (PStr s) =
           Some (Inr (Some (if \<bar>b\<bar> > 90 \<and> \<bar>a\<bar> \<le> 90 then (b, a) else (a, b))))"
proof -
  have ne: "strip s \<noteq> []" by (simp add: form)
  have "parse_coords e (PStr s) = Some (Inr (comma_coords e (strip s)))"
    using ne json by (rule parse_coords_rejected_text)
  also have "comma_coords e (strip s) =
      Some (if \<bar>b\<bar> > 90 \<and> \<bar>a\<bar> \<le> 90 then (b, a) else (a, b))"
    unfolding form using ta tb a b by (rule comma_coords_pair)
  finally show ?thesis .
qed

lemma ex_strip:
  "strip ''30, -100'' = ''30'' @ CHR '','' # '' -100''"
  "strip ''-100,38'' = ''-100'' @ CHR '','' # ''38''"
  "strip ''-100,30'' = ''-100'' @ CHR '','' # ''30''"
  "strip ''-100,30.0001'' = ''-100'' @ CHR '','' # ''30.0001''"
  "strip ''30'' = ''30''" "strip '' -100'' = ''-100''" "strip ''-100'' = ''-100''"
  "strip ''38'' = ''38''" "strip ''30.0001'' = ''30.0001''"
  by (simp_all add: strip_def is_space_def)

lemma ex_float:
  "float_of_str (ex_env_with rows route) ''30'' = Some 30"
  "float_of_str (ex_env_with rows route) ''-100'' = Some (- 100)"
  "float_of_str (ex_env_with rows route) ''38'' = Some 38"
  "float_of_str (ex_env_with rows route) ''30.0001'' = Some (300001 / 10000)"
  by (simp_all add: ex_env_with_def)

lemma ex_json: "json_loads (ex_env_with rows route) t = Inl JSONDecodeError"
  by (simp add: ex_env_with_def)

theorem parse_coords_comma_text_witness:
  "parse_coords ex_env (PStr ''30, -100'') = Some (Inr (Some (- 100, 30)))
   \<and> parse_coords ex_env (PStr ''-100,38'') = Some (Inr (Some (- 100, 38)))"
proof -
  have f: "float_of_str ex_env (strip ''30'') = Some 30"
      "float_of_str ex_env (strip '' -100'') = Some (- 100)"
      "float_of_str ex_env (strip ''-100'') = Some (- 100)"
      "float_of_str ex_env (strip ''38'') = Some 38"
    by (simp_all add: ex_env_def ex_strip ex_float)
  have j: "json_loads ex_env (strip ''30, -100'') = Inl JSONDecodeError"
      "json_loads ex_env (strip ''-100,38'') = Inl JSONDecodeError"
    by (simp_all add: ex_env_def ex_json)
  have "parse_coords ex_env (PStr ''30, -100'') = Some (Inr (Some (- 100, 30)))"
    using parse_coords_comma_text [OF ex_strip(1) _ _ j(1) f(1) f(2)] by simp
  moreover have "parse_coords ex_env (PStr ''-100,38'') = Some (Inr (Some (- 100, 38)))"
    using parse_coords_comma_text [OF ex_strip(2) _ _ j(2) f(3) f(4)] by simp
  ultimately show ?thesis by simp
qed

subsection \<open>Requests without a start or a finish\<close>

lemma query_get_absent: "key \<notin> fst ` set q \<Longrightarrow> query_get q key = None"
  by (simp add: query_get_def map_of_eq_None_iff)

text \<open>
  When the body is empty, is a JSON text or is rejected with one of the two exceptions that
  \<^verbatim>\<open>_parse_body\<close> catches, a request without a start or without a finish is answered with
  status 400, and neither the cache nor a collaborator is called.
\<close>

lemma missing_input_is_client_error:
  assumes "parse_body e req = Inr data"
    and "(query_get (GET req) ''start'' = None
            \<and> map_of data ''start'' = None
            \<and> map_of data ''start_coords'' = None)
         \<or> (query_get (GET req) ''finish'' = None
            \<and> map_of data ''finish'' = None
            \<and> map_of data ''end'' = None
            \<and> map_of data ''end_coords'' = None)"
  shows "route_distance e c req =
           Some (Inr \<lparr>status = 400,
                      payload = [(''error'', Text ''Both start and finish are required.''),
                                 (''example'', Example ''Los Angeles, CA'' ''Dallas, TX'' False)]\<rparr>,
                 c, [])"
proof -
  obtain start finish flag where ex: "extract_inputs e req = Inr (start, finish, flag)"
    using assms(1) by (auto simp: extract_inputs_def Let_def)
  from assms(2) have "start = PNone \<or> finish = PNone"
  proof
    assume "query_get (GET req) ''start'' = None
            \<and> map_of data ''start'' = None
            \<and> map_of data ''start_coords'' = None"
    with ex assms(1) have "start = PNone"
      by (auto simp: extract_inputs_def Let_def dict_get_def py_or_def)
    then show ?thesis ..
  next
    assume "query_get (GET req) ''finish'' = None
            \<and> map_of data ''finish'' = None
            \<and> map_of data ''end'' = None
            \<and> map_of data ''end_coords'' = None"
    with ex assms(1) have "finish = PNone"
      by (auto simp: extract_inputs_def Let_def dict_get_def py_or_def)
    then show ?thesis ..
  qed
  then show ?thesis by (auto simp: route_distance_def ex)
qed

text \<open>
  C9 fails on the code: a request without start and finish whose body makes the JSON decoder
  raise anything but \<^verbatim>\<open>JSONDecodeError\<close> (deep nesting raises \<^verbatim>\<open>RecursionError\<close>, an integer of
  5000 digits raises \<^verbatim>\<open>ValueError\<close>) is not answered with status 400: the exception escapes
  \<^verbatim>\<open>_parse_body\<close> and the handler.
\<close>

theorem undecodable_body_escapes:
  assumes "body req \<noteq> []"
    and "json_loads e (body req) = Inl err"
    and "err \<noteq> UnicodeDecodeError"
    and "err \<noteq> JSONDecodeError"
  shows "route_distance e c req = Some (Inl err, c, [])"
  using assms by (simp add: route_distance_def extract_inputs_def parse_body_def)

theorem undecodable_body_escapes_witness:
  "query_get (GET \<lparr>GET = [], body = ''[[[[[[[[''\<rparr>) ''start'' = None
   \<and> query_get (GET \<lparr>GET = [], body = ''[[[[[[[[''\<rparr>) ''finish'' = None
   \<and> json_loads ex_env_deep ''[[[[[[[['' = Inl RecursionError
   \<and> route_distance ex_env_deep [] \<lparr>GET = [], body = ''[[[[[[[[''\<rparr>
       = Some (Inl RecursionError, [], [])"
proof -
  have j: "json_loads ex_env_deep (body \<lparr>GET = [], body = ''[[[[[[[[''\<rparr>) = Inl RecursionError"
    by (simp add: ex_env_deep_def)
  have "route_distance ex_env_deep [] \<lparr>GET = [], body = ''[[[[[[[[''\<rparr>
       = Some (Inl RecursionError, [], [])"
    by (rule undecodable_body_escapes [OF _ j]) simp_all
  then show ?thesis by (simp add: query_get_def ex_env_deep_def)
qed

subsection \<open>Rounding to decimals\<close>

lemma round_half_even_bounds:
  "\<lfloor>x\<rfloor> \<le> round_half_even x \<and> round_half_even x \<le> \<lfloor>x\<rfloor> + 1"
  by (simp add: round_half_even_def Let_def)

lemma round_half_even_mono:
  assumes "x \<le> y"
  shows "round_half_even x \<le> round_half_even y"
proof (cases "\<lfloor>x\<rfloor> < \<lfloor>y\<rfloor>")
  case True
  have "round_half_even x \<le> \<lfloor>x\<rfloor> + 1" using round_half_even_bounds by blast
  also have "\<dots> \<le> \<lfloor>y\<rfloor>" using True by simp
  also have "\<dots> \<le> round_half_even y" using round_half_even_bounds by blast
  finally show ?thesis .
next
  case False
  moreover have "\<lfloor>x\<rfloor> \<le> \<lfloor>y\<rfloor>" using assms by (rule floor_mono)
  ultimately have eq: "\<lfloor>x\<rfloor> = \<lfloor>y\<rfloor>" by simp
  then have "x - of_int \<lfloor>x\<rfloor> \<le> y - of_int \<lfloor>y\<rfloor>" using assms by simp
  then show ?thesis
    by (simp add: round_half_even_def Let_def eq)
qed

lemma py_round_mono: "x \<le> y \<Longrightarrow> py_round x n \<le> py_round y n"
  by (simp add: py_round_def divide_right_mono round_half_even_mono mult_right_mono)

lemma py_round_0: "py_round 0 n = 0"
  by (simp add: py_round_def round_half_even_def)

lemma py_round_nonneg: "0 \<le> x \<Longrightarrow> 0 \<le> py_round x n"
  using py_round_mono [of 0 x n] by (simp add: py_round_0)


subsection \<open>Total distance\<close>

lemma cumulative_loop_nonempty: "acc \<noteq> [] \<Longrightarrow> cumulative_loop rp acc \<noteq> []"
  by (induction rp acc rule: cumulative_loop.induct) auto

lemma build_cumulative_miles_nonempty: "build_cumulative_miles rp \<noteq> []"
  by (simp add: build_cumulative_miles_def cumulative_loop_nonempty)

subsection \<open>The loop over the markers\<close>

lemma enumerate_from_1_fst: "map fst (enumerate_from_1 xs) = [1..<Suc (length xs)]"
  by (simp add: enumerate_from_1_def)

lemma enumerate_from_1_snd: "map snd (enumerate_from_1 xs) = xs"
  by (simp add: enumerate_from_1_def del: upt_Suc)

lemma stops_loop_entries:
  assumes "\<forall>p \<in> set W. snd p < tot"
  shows "map order (fuel_stops (stops_loop ms tot W s)) = map order (fuel_stops s) @ map fst W
       \<and> map route_mile_marker (fuel_stops (stops_loop ms tot W s))
           = map route_mile_marker (fuel_stops s) @ map (\<lambda>p. py_round (snd p) 2) W"
  using assms
proof (induction W arbitrary: s)
  case Nil
  then show ?case by simp
next
  case (Cons p W)
  obtain ord marker where p: "p = (ord, marker)" by (cases p)
  from Cons.prems p have pos: "\<not> min MAX_RANGE_MILES (tot - marker) \<le> 0"
    by (auto simp: MAX_RANGE_MILES_def min_def)
  from Cons.prems have rest: "\<forall>p \<in> set W. snd p < tot" by simp
  show ?case
  proof (cases "select_station ms marker (previous_marker s)")
    case None
    then show ?thesis
      using pos Cons.IH [OF rest] by (simp add: p Let_def)
  next
    case (Some st)
    then show ?thesis
      using pos Cons.IH [OF rest] by (simp add: p Let_def)
  qed
qed

lemma stops_loop_costs:
  assumes "\<forall>st \<in> set ms. 0 \<le> price st"
    and "0 \<le> total_cost s"
    and "\<forall>x \<in> set (fuel_stops s). has_name x \<longrightarrow> segment_cost_usd x \<le> py_round (total_cost s) 2"
  shows "0 \<le> total_cost (stops_loop ms tot W s)
       \<and> (\<forall>x \<in> set (fuel_stops (stops_loop ms tot W s)).
             has_name x \<longrightarrow> segment_cost_usd x \<le> py_round (total_cost (stops_loop ms tot W s)) 2)"
  using assms(2,3)
proof (induction W arbitrary: s)
  case Nil
  then show ?case by simp
next
  case (Cons p W)
  obtain ord marker where p: "p = (ord, marker)" by (cases p)
  let ?seg = "min MAX_RANGE_MILES (tot - marker)"
  show ?case
  proof (cases "?seg \<le> 0")
    case True
    then show ?thesis using Cons.IH [OF Cons.prems] by (simp add: p Let_def)
  next
    case False
    show ?thesis
    proof (cases "select_station ms marker (previous_marker s)")
      case None
      let ?s' = "s\<lparr>missing_station_markers := missing_station_markers s @ [py_round marker 2],
                   fuel_stops := fuel_stops s @
                     [Gap ord (py_round marker 2) (py_round ?seg 2)
                        ''No geocoded station found near this route segment.''],
                   previous_marker := marker\<rparr>"
      have "0 \<le> total_cost ?s'" using Cons.prems by simp
      moreover have "\<forall>x \<in> set (fuel_stops ?s').
          has_name x \<longrightarrow> segment_cost_usd x \<le> py_round (total_cost ?s') 2"
        using Cons.prems by auto
      ultimately show ?thesis
        using Cons.IH [of ?s'] False None by (simp add: p Let_def)
    next
      case (Some st)
      then have "st \<in> set ms" by (rule select_station_mem)
      with assms(1) have pr: "0 \<le> price st" by blast
      let ?cost = "?seg / MPG * price st"
      have sp: "0 \<le> ?seg" using False by linarith
      have "0 \<le> ?seg / MPG" using sp unfolding MPG_def by (rule divide_nonneg_nonneg) simp
      then have c: "0 \<le> ?cost" using pr by (rule mult_nonneg_nonneg)
      let ?s' = "s\<lparr>total_cost := total_cost s + ?cost,
                       previous_marker := marker,
                       fuel_stops := fuel_stops s @
                         [Filled ord (py_round marker 2) (py_round ?seg 2)
                            (name st) (city st) (state st) (latitude st) (longitude st)
                            (py_round (detour_miles st) 2) (py_round (price st) 3)
                            (py_round (?seg / MPG) 2) (py_round ?cost 2)]\<rparr>"
      have t: "0 \<le> total_cost ?s'" using Cons.prems c by simp
      have old: "py_round (total_cost s) 2 \<le> py_round (total_cost s + ?cost) 2"
        using c by (intro py_round_mono) simp
      have new: "py_round ?cost 2 \<le> py_round (total_cost s + ?cost) 2"
        using Cons.prems(1) by (intro py_round_mono) simp
      have inv: "\<forall>x \<in> set (fuel_stops ?s').
          has_name x \<longrightarrow> segment_cost_usd x \<le> py_round (total_cost ?s') 2"
        using Cons.prems(2) old new by (auto intro: order_trans)
      show ?thesis
        using Cons.IH [OF t inv] False Some by (simp add: p Let_def)
    qed
  qed
qed

lemma stops_loop_no_stations:
  "filter has_name (fuel_stops (stops_loop [] tot W s)) = filter has_name (fuel_stops s)"
  by (induction W arbitrary: s) (auto simp: Let_def select_station_def)


lemma map_loop_prices:
  "map_loop route_points cumulative idxs sts acc = Inr mapped \<Longrightarrow>
   \<forall>s \<in> set acc. 0 \<le> price s \<Longrightarrow> \<forall>s \<in> set sts. 0 \<le> price s \<Longrightarrow>
   \<forall>s \<in> set mapped. 0 \<le> price s"
proof (induction sts arbitrary: acc)
  case Nil
  then show ?case by simp
next
  case (Cons st rest)
  obtain bd bi where nl: "nearest_loop st route_points idxs None 0 = (bd, bi)"
    by (cases "nearest_loop st route_points idxs None 0")
  from Cons.prems(3) have rest: "\<forall>s \<in> set rest. 0 \<le> price s" and st: "0 \<le> price st"
    by simp_all
  show ?case
  proof (cases bd)
    case None
    with Cons.prems(1) nl have "map_loop route_points cumulative idxs rest acc = Inr mapped"
      by simp
    from Cons.IH [OF this Cons.prems(2) rest] show ?thesis .
  next
    case (Some d)
    show ?thesis
    proof (cases "d \<le> CORRIDOR_RADIUS_MILES")
      case True
      with Cons.prems(1) nl Some have lt: "bi < length cumulative"
        by (simp split: if_splits)
      let ?acc = "acc @ [\<lparr>name = name st, city = city st, state = state st,
                    price = price st, latitude = latitude st, longitude = longitude st,
                    route_mile = cumulative ! bi, detour_miles = d\<rparr>]"
      have run: "map_loop route_points cumulative idxs rest ?acc = Inr mapped"
        using Cons.prems(1) nl Some True lt by simp
      have inv: "\<forall>s \<in> set ?acc. 0 \<le> price s"
        using Cons.prems(2) st by simp
      from Cons.IH [OF run inv rest] show ?thesis .
    next
      case False
      with Cons.prems(1) nl Some have "map_loop route_points cumulative idxs rest acc = Inr mapped"
        by simp
      from Cons.IH [OF this Cons.prems(2) rest] show ?thesis .
    qed
  qed
qed

lemma map_stations_to_route_prices:
  assumes "map_stations_to_route e route_points cumulative = Inr mapped"
    and "\<forall>s \<in> set (load_station_rows e). 0 \<le> price s"
  shows "\<forall>s \<in> set mapped. 0 \<le> price s"
proof (cases "route_points = []")
  case True
  with assms show ?thesis by (simp add: map_stations_to_route_def)
next
  case False
  show ?thesis
  proof (cases "route_bbox route_points (CORRIDOR_RADIUS_MILES + 20)")
    case (Inl err)
    with assms False show ?thesis by (simp add: map_stations_to_route_def)
  next
    case (Inr box)
    obtain lat_min lat_max lon_min lon_max where box: "box = (lat_min, lat_max, lon_min, lon_max)"
      by (cases box) auto
    let ?cands = "filter (\<lambda>st. lat_min \<le> latitude st \<and> latitude st \<le> lat_max
                                 \<and> lon_min \<le> longitude st \<and> longitude st \<le> lon_max)
                      (load_station_rows e)"
    show ?thesis
    proof (cases "?cands = []")
      case True
      with assms False Inr box show ?thesis by (simp add: map_stations_to_route_def)
    next
      case ne: False
      have "map_loop route_points cumulative (sampled_indexes (length route_points)) ?cands []
              = Inr mapped"
        using assms False Inr box ne by (simp add: map_stations_to_route_def)
      then show ?thesis by (rule map_loop_prices) (use assms(2) in auto)
    qed
  qed
qed

subsection \<open>The plan\<close>

lemma build_trip_plan_Inr:
  assumes "build_trip_plan e start_raw finish_raw flag = Some (calls, Inr plan)"
  shows "\<exists>sc fc dm enc dec. get_route e sc fc = (Some dm, enc, dec)
           \<and> assemble_plan e start_raw finish_raw flag sc fc dm enc dec = Inr plan"
  using assms
  by (auto simp: build_trip_plan_def split: option.splits prod.splits if_splits sum.splits)
     blast

lemma build_trip_plan_coords:
  assumes "parse_coords e start_raw = Some (Inr (Some sc))"
    and "parse_coords e finish_raw = Some (Inr (Some fc))"
    and "is_probably_us (fst sc) (snd sc)"
    and "is_probably_us (fst fc) (snd fc)"
    and "get_route e sc fc = (Some dm, enc, dec)"
  shows "build_trip_plan e start_raw finish_raw flag =
           Some ([RouteCall sc fc, StationRowsCall],
                 assemble_plan e start_raw finish_raw flag sc fc dm enc dec)"
  using assms by (simp add: build_trip_plan_def resolve_location_def)

lemma assemble_plan_Inr:
  fixes e start_raw finish_raw flag sc fc dm enc dec
  defines "rp \<equiv> to_route_points dec sc fc"
  defines "tot \<equiv> last (build_cumulative_miles rp)"
  defines "wps \<equiv> build_waypoint_markers tot flag"
  assumes "assemble_plan e start_raw finish_raw flag sc fc dm enc dec = Inr plan"
  shows "\<exists>mapped. map_stations_to_route e rp (build_cumulative_miles rp) = Inr mapped
      \<and> plan_fuel_stops plan =
          fuel_stops (stops_loop mapped tot (enumerate_from_1 wps)
            \<lparr>fuel_stops = [], total_cost = 0, previous_marker = - MAX_RANGE_MILES,
             missing_station_markers = []\<rparr>)
      \<and> map_option total_fuel_cost_usd (plan_summary plan) =
          Some (py_round (total_cost (stops_loop mapped tot (enumerate_from_1 wps)
            \<lparr>fuel_stops = [], total_cost = 0, previous_marker = - MAX_RANGE_MILES,
             missing_station_markers = []\<rparr>)) 2)
      \<and> map_option number_of_fuel_stops (plan_summary plan) =
          Some (length (filter has_name (plan_fuel_stops plan)))
      \<and> map_option total_distance_miles (plan_summary plan) = Some (py_round tot 2)
      \<and> map_of plan ''route_polyline'' = Some (Polyline enc)"
proof -
  have tot: "total_distance_of (build_cumulative_miles rp) dm = tot"
    by (simp add: total_distance_of_def tot_def build_cumulative_miles_nonempty)
  from assms(4) obtain mapped where
    m: "map_stations_to_route e rp (build_cumulative_miles rp) = Inr mapped"
    by (auto simp: assemble_plan_def rp_def Let_def split: sum.splits)
  from assms(4) show ?thesis
    unfolding assemble_plan_def
    by (auto simp: Let_def m tot rp_def [symmetric] wps_def [symmetric] plan_fuel_stops_def
          plan_summary_def split: if_splits)
qed


lemma assemble_plan_ok:
  assumes "map_stations_to_route e (to_route_points dec sc fc)
             (build_cumulative_miles (to_route_points dec sc fc)) = Inr mapped"
  shows "\<exists>plan. assemble_plan e start_raw finish_raw flag sc fc dm enc dec = Inr plan"
  using assms by (simp add: assemble_plan_def Let_def)

lemma map_stations_to_route_no_rows:
  assumes "load_station_rows e = []"
  shows "map_stations_to_route e route_points cumulative = Inr []"
  using assms
  by (cases "route_points = []")
     (auto simp: map_stations_to_route_def route_bbox_def Let_def split: sum.splits)

subsection \<open>One entry for every marker\<close>

lemma fuel_stops_entries:
  assumes "build_trip_plan e start_raw finish_raw flag = Some (calls, Inr plan)"
  shows "\<exists>sc fc dm enc dec sm.
      get_route e sc fc = (Some dm, enc, dec)
    \<and> plan_summary plan = Some sm
    \<and> (\<forall>m \<in> set (build_waypoint_markers
                      (last (build_cumulative_miles (to_route_points dec sc fc))) flag).
           0 < min MAX_RANGE_MILES (last (build_cumulative_miles (to_route_points dec sc fc)) - m))
    \<and> map order (plan_fuel_stops plan) =
          [1..<Suc (length (build_waypoint_markers
                      (last (build_cumulative_miles (to_route_points dec sc fc))) flag))]
    \<and> map route_mile_marker (plan_fuel_stops plan) =
          map (\<lambda>m. py_round m 2)
            (build_waypoint_markers (last (build_cumulative_miles (to_route_points dec sc fc))) flag)
    \<and> number_of_fuel_stops sm = length (filter has_name (plan_fuel_stops plan))
    \<and> number_of_fuel_stops sm \<le> length (plan_fuel_stops plan)"
proof -
  from build_trip_plan_Inr [OF assms] obtain sc fc dm enc dec where
    route: "get_route e sc fc = (Some dm, enc, dec)" and
    asm: "assemble_plan e start_raw finish_raw flag sc fc dm enc dec = Inr plan"
    by blast
  define tot where "tot = last (build_cumulative_miles (to_route_points dec sc fc))"
  define W where "W = build_waypoint_markers tot flag"
  define init where "init = \<lparr>fuel_stops = [], total_cost = 0,
      previous_marker = - MAX_RANGE_MILES, missing_station_markers = []\<rparr>"
  from assemble_plan_Inr [OF asm] obtain mapped where
    stops: "plan_fuel_stops plan = fuel_stops (stops_loop mapped tot (enumerate_from_1 W) init)"
    and num: "map_option number_of_fuel_stops (plan_summary plan) =
          Some (length (filter has_name (plan_fuel_stops plan)))"
    unfolding tot_def W_def init_def by blast
  from num obtain sm where sm: "plan_summary plan = Some sm"
    and n: "number_of_fuel_stops sm = length (filter has_name (plan_fuel_stops plan))"
    by (cases "plan_summary plan") auto
  have below: "\<forall>m \<in> set W. m < tot"
    unfolding W_def using waypoint_markers_below by blast
  then have pos: "\<forall>m \<in> set W. 0 < min MAX_RANGE_MILES (tot - m)"
    by (simp add: MAX_RANGE_MILES_def)
  have "set (map snd (enumerate_from_1 W)) = set W"
    by (simp only: enumerate_from_1_snd)
  with below have "\<forall>p \<in> set (enumerate_from_1 W). snd p < tot"
    by auto
  from stops_loop_entries [OF this, of mapped init]
  have o: "map order (plan_fuel_stops plan) = map fst (enumerate_from_1 W)"
    and m: "map route_mile_marker (plan_fuel_stops plan)
              = map (\<lambda>p. py_round (snd p) 2) (enumerate_from_1 W)"
    by (simp_all add: stops init_def)
  have ord: "map order (plan_fuel_stops plan) = [1..<Suc (length W)]"
    using o by (simp only: enumerate_from_1_fst)
  have "map (\<lambda>p. py_round (snd p) 2) (enumerate_from_1 W)
          = map (\<lambda>m. py_round m 2) (map snd (enumerate_from_1 W))"
    by (simp add: comp_def)
  then have mk: "map route_mile_marker (plan_fuel_stops plan) = map (\<lambda>m. py_round m 2) W"
    using m by (simp only: enumerate_from_1_snd)
  have le: "number_of_fuel_stops sm \<le> length (plan_fuel_stops plan)"
    by (simp add: n)
  from route sm pos ord mk n le show ?thesis
    unfolding tot_def W_def by blast
qed

subsection \<open>The total cost\<close>

lemma total_cost_dominates:
  assumes "build_trip_plan e start_raw finish_raw flag = Some (calls, Inr plan)"
    and "\<forall>st \<in> set (load_station_rows e). 0 \<le> price st"
    and "plan_summary plan = Some sm"
    and "x \<in> set (plan_fuel_stops plan)"
    and "has_name x"
  shows "segment_cost_usd x \<le> total_fuel_cost_usd sm"
proof -
  from build_trip_plan_Inr [OF assms(1)] obtain sc fc dm enc dec where
    asm: "assemble_plan e start_raw finish_raw flag sc fc dm enc dec = Inr plan"
    by blast
  let ?rp = "to_route_points dec sc fc"
  let ?tot = "last (build_cumulative_miles ?rp)"
  let ?W = "build_waypoint_markers ?tot flag"
  let ?init = "\<lparr>fuel_stops = [], total_cost = 0, previous_marker = - MAX_RANGE_MILES,
             missing_station_markers = []\<rparr>"
  from assemble_plan_Inr [OF asm] obtain mapped where
    m: "map_stations_to_route e ?rp (build_cumulative_miles ?rp) = Inr mapped" and
    stops: "plan_fuel_stops plan = fuel_stops (stops_loop mapped ?tot (enumerate_from_1 ?W) ?init)"
    and cost: "map_option total_fuel_cost_usd (plan_summary plan) =
          Some (py_round (total_cost (stops_loop mapped ?tot (enumerate_from_1 ?W) ?init)) 2)"
    by blast
  have prices: "\<forall>s \<in> set mapped. 0 \<le> price s"
    using map_stations_to_route_prices [OF m assms(2)] .
  have "\<forall>x \<in> set (fuel_stops (stops_loop mapped ?tot (enumerate_from_1 ?W) ?init)).
          has_name x \<longrightarrow> segment_cost_usd x
            \<le> py_round (total_cost (stops_loop mapped ?tot (enumerate_from_1 ?W) ?init)) 2"
    using stops_loop_costs [OF prices, of ?init ?tot "enumerate_from_1 ?W"] by simp
  with assms(3,4,5) stops cost show ?thesis by auto
qed

text \<open>
  C5 (as amended). When no station of the table has a negative price and the plan holds a
  filled stop whose reported segment cost (rounded to two decimals) is positive, the reported
  \<open>total_fuel_cost_usd\<close> is positive: it is at least the segment cost of every filled stop.
\<close>

theorem positive_segment_cost_gives_positive_total:
  assumes "build_trip_plan e start_raw finish_raw flag = Some (calls, Inr plan)"
    and "\<forall>st \<in> set (load_station_rows e). 0 \<le> price st"
    and "plan_summary plan = Some sm"
    and "x \<in> set (plan_fuel_stops plan)"
    and "has_name x"
    and "0 < segment_cost_usd x"
  shows "0 < total_fuel_cost_usd sm"
  using total_cost_dominates [OF assms(1-5)] assms(6) by simp

subsection \<open>The encoded path\<close>



subsection \<open>Example trips\<close>

lemma ex_parse_pair:
  assumes "strip s = ta @ CHR '','' # tb"
    and "CHR '','' \<notin> set ta"
    and "CHR '','' \<notin> set tb"
    and "float_of_str (ex_env_with rows route) (strip ta) = Some a"
    and "float_of_str (ex_env_with rows route) (strip tb) = Some b"
    and "\<bar>b\<bar> \<le> 90"
  shows "parse_coords (ex_env_with rows route) (PStr s) = Some (Inr (Some (a, b)))"
proof -
  have ne: "strip s \<noteq> []" by (simp add: assms(1))
  have "parse_coords (ex_env_with rows route) (PStr s)
          = Some (Inr (comma_coords (ex_env_with rows route) (strip s)))"
    using ne ex_json by (rule parse_coords_rejected_text)
  also have "comma_coords (ex_env_with rows route) (strip s) =
      Some (if \<bar>b\<bar> > 90 \<and> \<bar>a\<bar> \<le> 90 then (b, a) else (a, b))"
    unfolding assms(1) using assms(2-5) by (rule comma_coords_pair)
  finally show ?thesis using assms(6) by simp
qed

lemma ex_parse:
  "parse_coords (ex_env_with rows route) (PStr ''-100,30'') = Some (Inr (Some (- 100, 30)))"
  "parse_coords (ex_env_with rows route) (PStr ''-100,38'') = Some (Inr (Some (- 100, 38)))"
  "parse_coords (ex_env_with rows route) (PStr ''-100,30.0001'')
     = Some (Inr (Some (- 100, 300001 / 10000)))"
proof -
  show "parse_coords (ex_env_with rows route) (PStr ''-100,30'') = Some (Inr (Some (- 100, 30)))"
    by (rule ex_parse_pair [OF ex_strip(3)]) (simp_all add: ex_strip ex_float)
  show "parse_coords (ex_env_with rows route) (PStr ''-100,38'') = Some (Inr (Some (- 100, 38)))"
    by (rule ex_parse_pair [OF ex_strip(2)]) (simp_all add: ex_strip ex_float)
  show "parse_coords (ex_env_with rows route) (PStr ''-100,30.0001'')
     = Some (Inr (Some (- 100, 300001 / 10000)))"
    by (rule ex_parse_pair [OF ex_strip(4)]) (simp_all add: ex_strip ex_float)
qed

lemma ex_get_route:
  "get_route (ex_env_with rows route) sc fc = (Some 5000, Some ''encoded-polyline'', route)"
  by (simp add: ex_env_with_def)

lemma ex_load_rows: "load_station_rows (ex_env_with rows route) = rows"
  by (simp add: ex_env_with_def)

lemma ex_trip:
  "build_trip_plan (ex_env_with rows route) (PStr ''-100,30'') (PStr ''-100,38'') flag =
     Some ([RouteCall (- 100, 30) (- 100, 38), StationRowsCall],
           assemble_plan (ex_env_with rows route) (PStr ''-100,30'') (PStr ''-100,38'') flag
             (- 100, 30) (- 100, 38) 5000 (Some ''encoded-polyline'') route)"
  by (rule build_trip_plan_coords [OF ex_parse(1) ex_parse(2)])
     (simp_all add: is_probably_us_def ex_get_route)

lemma ex_short_trip:
  "build_trip_plan (ex_env_with rows route) (PStr ''-100,30'') (PStr ''-100,30.0001'') flag =
     Some ([RouteCall (- 100, 30) (- 100, 300001 / 10000), StationRowsCall],
           assemble_plan (ex_env_with rows route) (PStr ''-100,30'') (PStr ''-100,30.0001'') flag
             (- 100, 30) (- 100, 300001 / 10000) 5000 (Some ''encoded-polyline'') route)"
  by (rule build_trip_plan_coords [OF ex_parse(1) ex_parse(3)])
     (simp_all add: is_probably_us_def ex_get_route)

lemma ex_waypoints: "build_waypoint_markers ex_total False = [0, 500]"
proof -
  have b: "0 < ex_total" "500 < ex_total" "\<not> 1000 < ex_total"
    using ex_total_bounds by simp_all
  have "markers_loop 1000 ex_total [0, 500] = [0, 500]"
    using b by (simp add: markers_loop.simps [of 1000])
  then have "markers_loop 500 ex_total [0] = [0, 500]"
    using b by (simp add: markers_loop.simps [of 500] MAX_RANGE_MILES_def)
  then have "markers_loop 0 ex_total [] = [0, 500]"
    using b by (simp add: markers_loop.simps [of 0] MAX_RANGE_MILES_def)
  then show ?thesis using b by (simp add: build_waypoint_markers_def)
qed

lemma ex_enumerate: "enumerate_from_1 [a, b] = [(1, a), (2, b)]"
  by (simp add: enumerate_from_1_def upt_conv_Cons)

lemma ex_select_second: "select_station ex_mapped_route 500 0 = Some ex_near_mapped"
proof -
  have d: "dsub 0 500 = - 500" "dsub 0 40 = - 40" by (simp_all add: double_eval)
  have rm: "route_mile ex_near_mapped = 0" by (simp add: ex_near_mapped_def)
  show ?thesis
    by (simp add: ex_mapped_route_def select_station_def WAYPOINT_WINDOWS_MILES_def py_min_def
          Let_def d rm)
qed

lemma py_round_int: "py_round (of_int k) n = of_int k"
proof -
  have "of_int k * (10::real) ^ n = of_int (k * 10 ^ n)" by simp
  then have "round_half_even (of_int k * 10 ^ n) = k * 10 ^ n"
    unfolding round_half_even_def Let_def by (simp only: floor_of_int) simp
  then show ?thesis by (simp add: py_round_def)
qed

lemma py_round_numeral [simp]: "py_round (numeral k) n = numeral k"
  using py_round_int [of "numeral k" n] by simp

lemma ex_stops:
  "stops_loop ex_mapped_route ex_total [(1, 0), (2, 500)] ex_init =
     \<lparr>fuel_stops =
        [Filled 1 0 500 ''Border Fuel'' ''Del Rio'' ''TX'' 30 (- 100) 0 3 50 150,
         Filled 2 500 (py_round (ex_total - 500) 2) ''Border Fuel'' ''Del Rio'' ''TX'' 30 (- 100)
           0 3 (py_round ((ex_total - 500) / 10) 2) (py_round ((ex_total - 500) / 10 * 3) 2)],
      total_cost = 150 + (ex_total - 500) / 10 * 3,
      previous_marker = 500,
      missing_station_markers = []\<rparr>"
proof -
  have seg: "min MAX_RANGE_MILES ex_total = 500"
      "min MAX_RANGE_MILES (ex_total - 500) = ex_total - 500" "0 < ex_total - 500"
    using ex_total_bounds by (simp_all add: MAX_RANGE_MILES_def)
  have near: "name ex_near_mapped = ''Border Fuel''" "city ex_near_mapped = ''Del Rio''"
      "state ex_near_mapped = ''TX''" "latitude ex_near_mapped = 30"
      "longitude ex_near_mapped = - 100" "price ex_near_mapped = 3"
      "detour_miles ex_near_mapped = 0"
    by (simp_all add: ex_near_mapped_def)
  have sel: "select_station ex_mapped_route 0 (- MAX_RANGE_MILES) = Some ex_near_mapped"
    using ex_select_first by (simp add: MAX_RANGE_MILES_def)
  show ?thesis
    using seg(3)
    by (simp add: ex_init_def seg(1,2) sel ex_select_second near Let_def MPG_def py_round_0)
qed

lemma select_station_empty: "select_station [] marker previous = None"
  by (simp add: select_station_def WAYPOINT_WINDOWS_MILES_def py_min_def Let_def)

lemma ex_gaps:
  "fuel_stops (stops_loop [] ex_total [(1, 0), (2, 500)] ex_init) =
     [Gap 1 0 500 ''No geocoded station found near this route segment.'',
      Gap 2 500 (py_round (ex_total - 500) 2)
        ''No geocoded station found near this route segment.'']"
proof -
  have seg: "min MAX_RANGE_MILES ex_total = 500"
      "min MAX_RANGE_MILES (ex_total - 500) = ex_total - 500" "0 < ex_total - 500"
    using ex_total_bounds by (simp_all add: MAX_RANGE_MILES_def)
  show ?thesis
    using seg(3) by (simp add: ex_init_def seg(1,2) select_station_empty Let_def py_round_0)
qed

lemma ex_route_points: "to_route_points ex_route sc fc = ex_route"
  by (simp add: to_route_points_def ex_route_def)

lemma ex_plan:
  "\<exists>plan. build_trip_plan ex_env (PStr ''-100,30'') (PStr ''-100,38'') False =
             Some ([RouteCall (- 100, 30) (- 100, 38), StationRowsCall], Inr plan)
     \<and> plan_fuel_stops plan =
         [Filled 1 0 500 ''Border Fuel'' ''Del Rio'' ''TX'' 30 (- 100) 0 3 50 150,
          Filled 2 500 (py_round (ex_total - 500) 2) ''Border Fuel'' ''Del Rio'' ''TX'' 30 (- 100)
            0 3 (py_round ((ex_total - 500) / 10) 2) (py_round ((ex_total - 500) / 10 * 3) 2)]
     \<and> map_of plan ''route_polyline'' = Some (Polyline (Some ''encoded-polyline''))"
proof -
  let ?sc = "(- 100, 30) :: real \<times> real" and ?fc = "(- 100, 38) :: real \<times> real"
  have m: "map_stations_to_route ex_env (to_route_points ex_route ?sc ?fc)
             (build_cumulative_miles (to_route_points ex_route ?sc ?fc)) = Inr ex_mapped_route"
    by (simp only: ex_route_points ex_cumulative ex_map_stations)
  from assemble_plan_ok [OF m] obtain plan where
    asm: "assemble_plan ex_env (PStr ''-100,30'') (PStr ''-100,38'') False ?sc ?fc 5000
            (Some ''encoded-polyline'') ex_route = Inr plan"
    by blast
  have run: "build_trip_plan ex_env (PStr ''-100,30'') (PStr ''-100,38'') False =
             Some ([RouteCall (- 100, 30) (- 100, 38), StationRowsCall], Inr plan)"
    using ex_trip [of ex_rows ex_route False] asm by (simp add: ex_env_def)
  from assemble_plan_Inr [OF asm] obtain mapped where
    "map_stations_to_route ex_env (to_route_points ex_route ?sc ?fc)
       (build_cumulative_miles (to_route_points ex_route ?sc ?fc)) = Inr mapped"
    and stops: "plan_fuel_stops plan =
       fuel_stops (stops_loop mapped
         (last (build_cumulative_miles (to_route_points ex_route ?sc ?fc)))
         (enumerate_from_1 (build_waypoint_markers
            (last (build_cumulative_miles (to_route_points ex_route ?sc ?fc))) False))
         \<lparr>fuel_stops = [], total_cost = 0, previous_marker = - MAX_RANGE_MILES,
          missing_station_markers = []\<rparr>)"
    and poly: "map_of plan ''route_polyline'' = Some (Polyline (Some ''encoded-polyline''))"
    by blast
  with m have mapped: "mapped = ex_mapped_route" by simp
  have "plan_fuel_stops plan =
      fuel_stops (stops_loop ex_mapped_route ex_total [(1, 0), (2, 500)] ex_init)"
    unfolding stops mapped ex_route_points ex_cumulative
    by (simp add: ex_waypoints ex_enumerate ex_init_def del: stops_loop.simps)
  with run poly show ?thesis by (simp only: ex_stops) simp
qed

subsection \<open>The total distance\<close>

lemma build_trip_plan_route_call:
  assumes "build_trip_plan e start_raw finish_raw flag = Some (calls, Inr plan)"
  shows "\<exists>sc fc dm enc dec. RouteCall sc fc \<in> set calls
           \<and> get_route e sc fc = (Some dm, enc, dec)
           \<and> assemble_plan e start_raw finish_raw flag sc fc dm enc dec = Inr plan"
  using assms
  by (auto simp: build_trip_plan_def split: option.splits prod.splits if_splits sum.splits)
     blast

lemma cumulative_single: "build_cumulative_miles [p] = [0]"
  by (simp add: build_cumulative_miles_def)

text \<open>
  C6 fails on the code. The total distance of every plan is the last value of the cumulative
  table of the route points, and the plan reports it rounded to two decimals. The table is
  never empty, so the test \<^verbatim>\<open>if cumulative_miles\<close> never fails and the routed distance
  \<open>distance_meters\<close> is never used: when the routing service decodes the path to a single
  point, the table is the degenerate \<open>[0]\<close> and the plan reports a total distance of 0 miles,
  whatever distance the service gave.
\<close>

theorem routed_distance_never_used:
  assumes "build_trip_plan e start_raw finish_raw flag = Some (calls, Inr plan)"
  shows "\<exists>sc fc dm enc dec.
      RouteCall sc fc \<in> set calls
    \<and> get_route e sc fc = (Some dm, enc, dec)
    \<and> total_distance_of (build_cumulative_miles (to_route_points dec sc fc)) dm
        = last (build_cumulative_miles (to_route_points dec sc fc))
    \<and> map_option total_distance_miles (plan_summary plan)
        = Some (py_round (last (build_cumulative_miles (to_route_points dec sc fc))) 2)
    \<and> (length dec = 1 \<longrightarrow>
          build_cumulative_miles (to_route_points dec sc fc) = [0]
        \<and> map_option total_distance_miles (plan_summary plan) = Some 0)"
proof -
  from build_trip_plan_route_call [OF assms] obtain sc fc dm enc dec where
    call: "RouteCall sc fc \<in> set calls" and
    route: "get_route e sc fc = (Some dm, enc, dec)" and
    asm: "assemble_plan e start_raw finish_raw flag sc fc dm enc dec = Inr plan"
    by blast
  let ?cm = "build_cumulative_miles (to_route_points dec sc fc)"
  have tot: "total_distance_of ?cm dm = last ?cm"
    by (simp add: total_distance_of_def build_cumulative_miles_nonempty)
  from assemble_plan_Inr [OF asm]
  have rep: "map_option total_distance_miles (plan_summary plan) = Some (py_round (last ?cm) 2)"
    by blast
  have one: "length dec = 1 \<longrightarrow> ?cm = [0]
        \<and> map_option total_distance_miles (plan_summary plan) = Some 0"
  proof
    assume "length dec = 1"
    then obtain p where "dec = [p]" by (cases dec) auto
    then have "?cm = [0]" by (simp add: to_route_points_def cumulative_single)
    with rep show "?cm = [0] \<and> map_option total_distance_miles (plan_summary plan) = Some 0"
      by (simp add: py_round_0)
  qed
  from call route tot rep one show ?thesis by blast
qed

lemma ex_routed_miles: "py_round (5000 / (1609344 / 1000)) 2 = 311 / 100"
  by (simp add: py_round_def round_half_even_def Let_def)

theorem routed_distance_never_used_witness:
  "get_route (ex_env_with [] [(30, - 100)]) (- 100, 30) (- 100, 38)
     = (Some 5000, Some ''encoded-polyline'', [(30, - 100)])
   \<and> map_option total_distance_miles
       (plan_summary (trip_plan_of
          (build_trip_plan (ex_env_with [] [(30, - 100)])
             (PStr ''-100,30'') (PStr ''-100,38'') False))) = Some 0
   \<and> py_round (5000 / (1609344 / 1000)) 2 = 311 / 100"
proof -
  let ?e = "ex_env_with [] [(30, - 100)]"
  have "map_stations_to_route ?e (to_route_points [(30, - 100)] (- 100, 30) (- 100, 38))
          (build_cumulative_miles (to_route_points [(30, - 100)] (- 100, 30) (- 100, 38)))
        = Inr []"
    by (rule map_stations_to_route_no_rows) (simp add: ex_load_rows)
  from assemble_plan_ok [OF this] obtain plan where
    "assemble_plan ?e (PStr ''-100,30'') (PStr ''-100,38'') False (- 100, 30) (- 100, 38) 5000
            (Some ''encoded-polyline'') [(30, - 100)] = Inr plan"
    by blast
  then have run: "build_trip_plan ?e (PStr ''-100,30'') (PStr ''-100,38'') False =
             Some ([RouteCall (- 100, 30) (- 100, 38), StationRowsCall], Inr plan)"
    using ex_trip [of "[]" "[(30, - 100)]" False] by simp
  from routed_distance_never_used [OF run] obtain sc fc dm enc dec where
    route: "get_route ?e sc fc = (Some dm, enc, dec)" and
    one: "length dec = 1 \<longrightarrow> map_option total_distance_miles (plan_summary plan) = Some 0"
    by blast
  from route have "dec = [(30, - 100)]" by (simp add: ex_get_route)
  with one have "map_option total_distance_miles (plan_summary plan) = Some 0" by simp
  then have t: "map_option total_distance_miles
       (plan_summary (trip_plan_of
          (build_trip_plan ?e (PStr ''-100,30'') (PStr ''-100,38'') False))) = Some 0"
    by (simp add: run trip_plan_of_def)
  show ?thesis
    by (intro conjI) (rule ex_get_route t ex_routed_miles)+
qed

subsection \<open>One entry for every marker\<close>

text \<open>
  C10. The \<open>fuel_stops\<close> of every plan hold one entry for every waypoint marker, in the
  order of the markers: the segment distance \<open>min(500, total - marker)\<close> of every marker is
  positive, the \<open>order\<close> fields are \<open>1, 2, \<dots>\<close> up to the number of markers and the
  \<open>route_mile_marker\<close> fields are the markers, rounded. \<open>number_of_fuel_stops\<close> is the number
  of entries with a station; it is at most the number of entries, and there is a plan where
  it is smaller.
\<close>

theorem fuel_stops_one_entry_per_marker:
  assumes "build_trip_plan e start_raw finish_raw flag = Some (calls, Inr plan)"
  shows "(\<exists>sc fc dm enc dec sm.
      get_route e sc fc = (Some dm, enc, dec)
    \<and> plan_summary plan = Some sm
    \<and> (\<forall>m \<in> set (build_waypoint_markers
                      (last (build_cumulative_miles (to_route_points dec sc fc))) flag).
           0 < min MAX_RANGE_MILES (last (build_cumulative_miles (to_route_points dec sc fc)) - m))
    \<and> map order (plan_fuel_stops plan) =
          [1..<Suc (length (build_waypoint_markers
                      (last (build_cumulative_miles (to_route_points dec sc fc))) flag))]
    \<and> map route_mile_marker (plan_fuel_stops plan) =
          map (\<lambda>m. py_round m 2)
            (build_waypoint_markers (last (build_cumulative_miles (to_route_points dec sc fc))) flag)
    \<and> number_of_fuel_stops sm = length (filter has_name (plan_fuel_stops plan))
    \<and> number_of_fuel_stops sm \<le> length (plan_fuel_stops plan))
  \<and> (\<exists>e0 start0 finish0 flag0 calls0 plan0 sm0.
        build_trip_plan e0 start0 finish0 flag0 = Some (calls0, Inr plan0)
      \<and> plan_summary plan0 = Some sm0
      \<and> number_of_fuel_stops sm0 < length (plan_fuel_stops plan0))"
proof
  show "\<exists>sc fc dm enc dec sm.
      get_route e sc fc = (Some dm, enc, dec)
    \<and> plan_summary plan = Some sm
    \<and> (\<forall>m \<in> set (build_waypoint_markers
                      (last (build_cumulative_miles (to_route_points dec sc fc))) flag).
           0 < min MAX_RANGE_MILES (last (build_cumulative_miles (to_route_points dec sc fc)) - m))
    \<and> map order (plan_fuel_stops plan) =
          [1..<Suc (length (build_waypoint_markers
                      (last (build_cumulative_miles (to_route_points dec sc fc))) flag))]
    \<and> map route_mile_marker (plan_fuel_stops plan) =
          map (\<lambda>m. py_round m 2)
            (build_waypoint_markers (last (build_cumulative_miles (to_route_points dec sc fc))) flag)
    \<and> number_of_fuel_stops sm = length (filter has_name (plan_fuel_stops plan))
    \<and> number_of_fuel_stops sm \<le> length (plan_fuel_stops plan)"
    using assms by (rule fuel_stops_entries)
next
  let ?e = "ex_env_with [] ex_route"
  let ?sc = "(- 100, 30) :: real \<times> real" and ?fc = "(- 100, 38) :: real \<times> real"
  have none: "\<And>rp cm. map_stations_to_route ?e rp cm = Inr []"
    by (rule map_stations_to_route_no_rows) (simp add: ex_load_rows)
  from assemble_plan_ok [OF none] obtain plan0 where
    asm: "assemble_plan ?e (PStr ''-100,30'') (PStr ''-100,38'') False ?sc ?fc 5000
            (Some ''encoded-polyline'') ex_route = Inr plan0"
    by blast
  then have run: "build_trip_plan ?e (PStr ''-100,30'') (PStr ''-100,38'') False =
             Some ([RouteCall (- 100, 30) (- 100, 38), StationRowsCall], Inr plan0)"
    using ex_trip [of "[]" ex_route False] by simp
  from assemble_plan_Inr [OF asm] obtain mapped where
    m: "map_stations_to_route ?e (to_route_points ex_route ?sc ?fc)
       (build_cumulative_miles (to_route_points ex_route ?sc ?fc)) = Inr mapped"
    and stops: "plan_fuel_stops plan0 =
       fuel_stops (stops_loop mapped
         (last (build_cumulative_miles (to_route_points ex_route ?sc ?fc)))
         (enumerate_from_1 (build_waypoint_markers
            (last (build_cumulative_miles (to_route_points ex_route ?sc ?fc))) False))
         \<lparr>fuel_stops = [], total_cost = 0, previous_marker = - MAX_RANGE_MILES,
          missing_station_markers = []\<rparr>)"
    and num: "map_option number_of_fuel_stops (plan_summary plan0) =
          Some (length (filter has_name (plan_fuel_stops plan0)))"
    by blast
  from m have mapped: "mapped = []" by (simp add: none)
  have "plan_fuel_stops plan0 = fuel_stops (stops_loop [] ex_total [(1, 0), (2, 500)] ex_init)"
    unfolding stops mapped ex_route_points ex_cumulative
    by (simp add: ex_waypoints ex_enumerate ex_init_def del: stops_loop.simps)
  then have two: "plan_fuel_stops plan0 =
     [Gap 1 0 500 ''No geocoded station found near this route segment.'',
      Gap 2 500 (py_round (ex_total - 500) 2)
        ''No geocoded station found near this route segment.'']"
    by (simp only: ex_gaps)
  from num obtain sm0 where sm: "plan_summary plan0 = Some sm0"
    and n: "number_of_fuel_stops sm0 = length (filter has_name (plan_fuel_stops plan0))"
    by (cases "plan_summary plan0") auto
  from n have "number_of_fuel_stops sm0 < length (plan_fuel_stops plan0)"
    by (simp add: two)
  with run sm show "\<exists>e0 start0 finish0 flag0 calls0 plan0 sm0.
        build_trip_plan e0 start0 finish0 flag0 = Some (calls0, Inr plan0)
      \<and> plan_summary plan0 = Some sm0
      \<and> number_of_fuel_stops sm0 < length (plan_fuel_stops plan0)"
    by blast
qed

theorem fuel_stops_one_entry_per_marker_witness:
  "map order (plan_fuel_stops (trip_plan_of
      (build_trip_plan ex_env (PStr ''-100,30'') (PStr ''-100,38'') False))) = [1, 2]
   \<and> map route_mile_marker (plan_fuel_stops (trip_plan_of
      (build_trip_plan ex_env (PStr ''-100,30'') (PStr ''-100,38'') False))) = [0, 500]
   \<and> map has_name (plan_fuel_stops (trip_plan_of
      (build_trip_plan ex_env (PStr ''-100,30'') (PStr ''-100,38'') False))) = [True, True]
   \<and> map_option number_of_fuel_stops (plan_summary (trip_plan_of
      (build_trip_plan ex_env (PStr ''-100,30'') (PStr ''-100,38'') False))) = Some 2"
proof -
  from ex_plan obtain plan where
    run: "build_trip_plan ex_env (PStr ''-100,30'') (PStr ''-100,38'') False =
             Some ([RouteCall (- 100, 30) (- 100, 38), StationRowsCall], Inr plan)"
    and stops: "plan_fuel_stops plan =
         [Filled 1 0 500 ''Border Fuel'' ''Del Rio'' ''TX'' 30 (- 100) 0 3 50 150,
          Filled 2 500 (py_round (ex_total - 500) 2) ''Border Fuel'' ''Del Rio'' ''TX'' 30 (- 100)
            0 3 (py_round ((ex_total - 500) / 10) 2) (py_round ((ex_total - 500) / 10 * 3) 2)]"
    by blast
  from fuel_stops_one_entry_per_marker [OF run] obtain sc fc dm enc dec sm where
    route: "get_route ex_env sc fc = (Some dm, enc, dec)"
    and sm: "plan_summary plan = Some sm"
    and ord: "map order (plan_fuel_stops plan) =
          [1..<Suc (length (build_waypoint_markers
                      (last (build_cumulative_miles (to_route_points dec sc fc))) False))]"
    and mk: "map route_mile_marker (plan_fuel_stops plan) =
          map (\<lambda>m. py_round m 2)
            (build_waypoint_markers (last (build_cumulative_miles (to_route_points dec sc fc))) False)"
    and n: "number_of_fuel_stops sm = length (filter has_name (plan_fuel_stops plan))"
    by blast
  from route have dec: "dec = ex_route" by (simp add: ex_env_def ex_get_route)
  have w: "build_waypoint_markers (last (build_cumulative_miles (to_route_points dec sc fc))) False
            = [0, 500]"
    unfolding dec ex_route_points ex_cumulative by (simp add: ex_waypoints)
  have "map order (plan_fuel_stops plan) = [1, 2]"
    unfolding ord w by (simp add: upt_conv_Cons)
  moreover have "map route_mile_marker (plan_fuel_stops plan) = [0, 500]"
    unfolding mk w by (simp add: py_round_0)
  moreover have "map has_name (plan_fuel_stops plan) = [True, True]"
    by (simp add: stops)
  moreover have "number_of_fuel_stops sm = 2"
    unfolding n by (simp add: stops)
  ultimately show ?thesis
    by (simp add: run trip_plan_of_def sm)
qed

subsection \<open>A trip of a few yards\<close>

lemma ex_short_bounds: "6 / 1000 < ex_short_total \<and> ex_short_total < 9 / 1000"
  using pi_ge_3 pi_less_4 by (simp add: ex_short_total_def)

lemma ex_short_points:
  "to_route_points [] (- 100, 30) (- 100, 300001 / 10000) = ex_short_route"
  by (simp add: to_route_points_def ex_short_route_def)

lemma ex_short_cumulative: "build_cumulative_miles ex_short_route = [0, ex_short_total]"
  by (simp add: build_cumulative_miles_def ex_short_route_def haversine_meridian
        ex_short_total_def)

lemma ex_short_bbox:
  "\<exists>p \<ge> 0. route_bbox ex_short_route (CORRIDOR_RADIUS_MILES + 20)
       = Inr (30 - 45 / 69, 300001 / 10000 + 45 / 69, - 100 - p, - 100 + p)"
proof -
  let ?p = "45 / ((69172 / 1000) * max (2 / 10) \<bar>cos (radians (600001 / 20000))\<bar>)"
  have "0 \<le> ?p" by (intro divide_nonneg_nonneg mult_nonneg_nonneg) auto
  moreover have "route_bbox ex_short_route (CORRIDOR_RADIUS_MILES + 20)
       = Inr (30 - 45 / 69, 300001 / 10000 + 45 / 69, - 100 - ?p, - 100 + ?p)"
    by (simp add: route_bbox_def ex_short_route_def CORRIDOR_RADIUS_MILES_def Let_def)
  ultimately show ?thesis by blast
qed

lemma ex_short_nearest:
  "nearest_loop ex_near ex_short_route [0, Suc 0] None 0 = (Some 0, 0)"
  using pi_ge_3
  by (simp add: ex_near_def ex_short_route_def haversine_meridian)

lemma ex_short_map_loop:
  "map_loop ex_short_route [0, ex_short_total] [0, Suc 0] [ex_near] [] = Inr ex_mapped_route"
  by (simp add: ex_short_nearest CORRIDOR_RADIUS_MILES_def del: nearest_loop.simps)
     (simp add: ex_near_def ex_mapped_route_def ex_near_mapped_def)

lemma ex_short_map_stations:
  "map_stations_to_route (ex_env_with ex_rows route) ex_short_route [0, ex_short_total]
     = Inr ex_mapped_route"
proof -
  obtain p where p: "0 \<le> p" and box: "route_bbox ex_short_route (CORRIDOR_RADIUS_MILES + 20)
       = Inr (30 - 45 / 69, 300001 / 10000 + 45 / 69, - 100 - p, - 100 + p)"
    using ex_short_bbox by blast
  have fields: "latitude ex_near = 30" "longitude ex_near = - 100"
      "latitude ex_far = 34" "longitude ex_far = - 100"
    by (simp_all add: ex_near_def ex_far_def)
  have ne: "ex_short_route \<noteq> []" "length ex_short_route = 2"
    by (simp_all add: ex_short_route_def)
  have rows: "load_station_rows (ex_env_with ex_rows route) = [ex_near, ex_far]"
    by (simp add: ex_load_rows ex_rows_def)
  show ?thesis
    unfolding map_stations_to_route_def
    using ne p by (simp add: box rows fields ex_sampled ex_short_map_loop del: map_loop.simps)
qed

lemma ex_short_waypoints: "build_waypoint_markers ex_short_total False = [0]"
proof -
  have b: "0 < ex_short_total" "\<not> 500 < ex_short_total"
    using ex_short_bounds by simp_all
  have "markers_loop 500 ex_short_total [0] = [0]"
    using b by (simp add: markers_loop.simps [of 500])
  then have "markers_loop 0 ex_short_total [] = [0]"
    using b by (simp add: markers_loop.simps [of 0] MAX_RANGE_MILES_def)
  then show ?thesis using b by (simp add: build_waypoint_markers_def)
qed

lemma py_round_down:
  assumes "0 \<le> x" and "x * 10 ^ n < 1 / 2"
  shows "py_round x n = 0"
proof -
  have "0 \<le> x * 10 ^ n" using assms(1) by simp
  with assms(2) have "\<lfloor>x * 10 ^ n\<rfloor> = 0" by (simp add: floor_eq_iff)
  with assms(2) show ?thesis by (simp add: py_round_def round_half_even_def Let_def)
qed

lemma py_round_up:
  assumes "1 / 2 < x * 10 ^ n" and "x * 10 ^ n < 1"
  shows "py_round x n = 1 / 10 ^ n"
proof -
  have "\<lfloor>x * 10 ^ n\<rfloor> = 0" using assms by (simp add: floor_eq_iff)
  with assms show ?thesis by (simp add: py_round_def round_half_even_def Let_def)
qed

lemma ex_short_rounded:
  "py_round ex_short_total 2 = 1 / 100"
  "py_round (ex_short_total / 10) 2 = 0"
  "py_round (ex_short_total / 10 * 3) 2 = 0"
proof -
  show "py_round ex_short_total 2 = 1 / 100"
    using py_round_up [of ex_short_total 2] ex_short_bounds by simp
  show "py_round (ex_short_total / 10) 2 = 0"
    using py_round_down [of "ex_short_total / 10" 2] ex_short_bounds by simp
  show "py_round (ex_short_total / 10 * 3) 2 = 0"
    using py_round_down [of "ex_short_total / 10 * 3" 2] ex_short_bounds by simp
qed

lemma ex_short_stops:
  "stops_loop ex_mapped_route ex_short_total [(1, 0)] ex_init =
     \<lparr>fuel_stops =
        [Filled 1 0 (1 / 100) ''Border Fuel'' ''Del Rio'' ''TX'' 30 (- 100) 0 3 0 0],
      total_cost = ex_short_total / 10 * 3,
      previous_marker = 0,
      missing_station_markers = []\<rparr>"
proof -
  have seg: "min MAX_RANGE_MILES ex_short_total = ex_short_total" "0 < ex_short_total"
    using ex_short_bounds by (simp_all add: MAX_RANGE_MILES_def)
  have near: "name ex_near_mapped = ''Border Fuel''" "city ex_near_mapped = ''Del Rio''"
      "state ex_near_mapped = ''TX''" "latitude ex_near_mapped = 30"
      "longitude ex_near_mapped = - 100" "price ex_near_mapped = 3"
      "detour_miles ex_near_mapped = 0"
    by (simp_all add: ex_near_mapped_def)
  have sel: "select_station ex_mapped_route 0 (- MAX_RANGE_MILES) = Some ex_near_mapped"
    using ex_select_first by (simp add: MAX_RANGE_MILES_def)
  have r: "py_round (ex_short_total * 3 / 10) 2 = 0" "py_round (ex_short_total / 10) 2 = 0"
      "py_round ex_short_total 2 = 1 / 100"
    using ex_short_rounded by (simp_all add: field_simps)
  show ?thesis
    using seg(2)
    by (simp add: ex_init_def seg(1) sel near Let_def MPG_def py_round_0 r)
qed

lemma ex_short_plan:
  "\<exists>plan. build_trip_plan (ex_env_with ex_rows []) (PStr ''-100,30'') (PStr ''-100,30.0001'')
             False =
             Some ([RouteCall (- 100, 30) (- 100, 300001 / 10000), StationRowsCall], Inr plan)
     \<and> plan_fuel_stops plan =
         [Filled 1 0 (1 / 100) ''Border Fuel'' ''Del Rio'' ''TX'' 30 (- 100) 0 3 0 0]
     \<and> map_option total_fuel_cost_usd (plan_summary plan) = Some 0"
proof -
  let ?e = "ex_env_with ex_rows []"
  let ?sc = "(- 100, 30) :: real \<times> real" and ?fc = "(- 100, 300001 / 10000) :: real \<times> real"
  let ?init = "\<lparr>fuel_stops = [], total_cost = 0, previous_marker = - MAX_RANGE_MILES,
          missing_station_markers = []\<rparr>"
  have m: "map_stations_to_route ?e (to_route_points [] ?sc ?fc)
             (build_cumulative_miles (to_route_points [] ?sc ?fc)) = Inr ex_mapped_route"
    by (simp only: ex_short_points ex_short_cumulative ex_short_map_stations)
  from assemble_plan_ok [OF m] obtain plan where
    asm: "assemble_plan ?e (PStr ''-100,30'') (PStr ''-100,30.0001'') False ?sc ?fc 5000
            (Some ''encoded-polyline'') [] = Inr plan"
    by blast
  have run: "build_trip_plan ?e (PStr ''-100,30'') (PStr ''-100,30.0001'') False =
             Some ([RouteCall (- 100, 30) (- 100, 300001 / 10000), StationRowsCall], Inr plan)"
    using ex_short_trip [of ex_rows "[]" False] asm by simp
  from assemble_plan_Inr [OF asm] obtain mapped where
    "map_stations_to_route ?e (to_route_points [] ?sc ?fc)
       (build_cumulative_miles (to_route_points [] ?sc ?fc)) = Inr mapped"
    and stops: "plan_fuel_stops plan =
       fuel_stops (stops_loop mapped
         (last (build_cumulative_miles (to_route_points [] ?sc ?fc)))
         (enumerate_from_1 (build_waypoint_markers
            (last (build_cumulative_miles (to_route_points [] ?sc ?fc))) False)) ?init)"
    and cost: "map_option total_fuel_cost_usd (plan_summary plan) =
       Some (py_round (total_cost (stops_loop mapped
         (last (build_cumulative_miles (to_route_points [] ?sc ?fc)))
         (enumerate_from_1 (build_waypoint_markers
            (last (build_cumulative_miles (to_route_points [] ?sc ?fc))) False)) ?init)) 2)"
    by blast
  with m have mapped: "mapped = ex_mapped_route" by simp
  have loop: "stops_loop mapped
         (last (build_cumulative_miles (to_route_points [] ?sc ?fc)))
         (enumerate_from_1 (build_waypoint_markers
            (last (build_cumulative_miles (to_route_points [] ?sc ?fc))) False)) ?init
       = stops_loop ex_mapped_route ex_short_total [(1, 0)] ex_init"
    unfolding mapped ex_short_points ex_short_cumulative
    by (simp add: ex_short_waypoints enumerate_from_1_def ex_init_def del: stops_loop.simps)
  have "plan_fuel_stops plan =
         [Filled 1 0 (1 / 100) ''Border Fuel'' ''Del Rio'' ''TX'' 30 (- 100) 0 3 0 0]"
    unfolding stops loop by (simp only: ex_short_stops) simp
  moreover have "py_round (ex_short_total * 3 / 10) 2 = 0"
    using ex_short_rounded(3) by (simp add: field_simps)
  then have "map_option total_fuel_cost_usd (plan_summary plan) = Some 0"
    unfolding cost loop by (simp only: ex_short_stops) simp
  ultimately show ?thesis using run by blast
qed

text \<open>
  The literal claim C5 fails: on a trip of a few yards that starts at a station selling at
  3 dollars a gallon, the one stop of the plan is filled with that station and the reported
  total cost, two tenths of a cent rounded to cents, is 0.
\<close>

theorem positive_price_zero_total_counterexample:
  "map price (load_station_rows (ex_env_with ex_rows [])) = [3, 2]
   \<and> map has_name (plan_fuel_stops (trip_plan_of
        (build_trip_plan (ex_env_with ex_rows []) (PStr ''-100,30'') (PStr ''-100,30.0001'')
           False))) = [True]
   \<and> map price_per_gallon_usd (plan_fuel_stops (trip_plan_of
        (build_trip_plan (ex_env_with ex_rows []) (PStr ''-100,30'') (PStr ''-100,30.0001'')
           False))) = [3]
   \<and> map_option total_fuel_cost_usd (plan_summary (trip_plan_of
        (build_trip_plan (ex_env_with ex_rows []) (PStr ''-100,30'') (PStr ''-100,30.0001'')
           False))) = Some 0"
proof -
  from ex_short_plan obtain plan where
    "build_trip_plan (ex_env_with ex_rows []) (PStr ''-100,30'') (PStr ''-100,30.0001'') False =
       Some ([RouteCall (- 100, 30) (- 100, 300001 / 10000), StationRowsCall], Inr plan)"
    and "plan_fuel_stops plan =
         [Filled 1 0 (1 / 100) ''Border Fuel'' ''Del Rio'' ''TX'' 30 (- 100) 0 3 0 0]"
    and "map_option total_fuel_cost_usd (plan_summary plan) = Some 0"
    by blast
  then show ?thesis
    by (simp add: trip_plan_of_def ex_load_rows ex_rows_def ex_near_def ex_far_def)
qed

theorem positive_segment_cost_gives_positive_total_witness:
  "map has_name (take 1 (plan_fuel_stops (trip_plan_of
      (build_trip_plan ex_env (PStr ''-100,30'') (PStr ''-100,38'') False)))) = [True]
   \<and> map segment_cost_usd (take 1 (plan_fuel_stops (trip_plan_of
      (build_trip_plan ex_env (PStr ''-100,30'') (PStr ''-100,38'') False)))) = [150]
   \<and> (\<exists>sm. plan_summary (trip_plan_of
          (build_trip_plan ex_env (PStr ''-100,30'') (PStr ''-100,38'') False)) = Some sm
        \<and> 0 < total_fuel_cost_usd sm)"
proof -
  let ?x = "Filled 1 0 500 ''Border Fuel'' ''Del Rio'' ''TX'' 30 (- 100) 0 3 50 150"
  from ex_plan obtain plan where
    run: "build_trip_plan ex_env (PStr ''-100,30'') (PStr ''-100,38'') False =
             Some ([RouteCall (- 100, 30) (- 100, 38), StationRowsCall], Inr plan)"
    and stops: "plan_fuel_stops plan =
         [?x,
          Filled 2 500 (py_round (ex_total - 500) 2) ''Border Fuel'' ''Del Rio'' ''TX'' 30 (- 100)
            0 3 (py_round ((ex_total - 500) / 10) 2) (py_round ((ex_total - 500) / 10 * 3) 2)]"
    by blast
  from fuel_stops_entries [OF run] obtain sm where sm: "plan_summary plan = Some sm"
    by blast
  have prices: "\<forall>st \<in> set (load_station_rows ex_env). 0 \<le> price st"
    by (simp add: ex_env_def ex_load_rows ex_rows_def ex_near_def ex_far_def)
  have x: "?x \<in> set (plan_fuel_stops plan)" "has_name ?x" "0 < segment_cost_usd ?x"
    by (simp_all add: stops)
  have "0 < total_fuel_cost_usd sm"
    using positive_segment_cost_gives_positive_total [OF run prices sm x] .
  with sm show ?thesis
    by (simp add: run trip_plan_of_def stops)
qed

subsection \<open>What the cache holds\<close>






end
